theory Spec2Isabelle
  imports Main "HOL-Library.AList" "HOL-Library.Char_ord" "HOL-Library.List_Lexorder"
begin

section \<open>The request handler of main.go\<close>

text \<open>
  The repository is one Go function, \<open>handleRequest\<close>, registered for two routes.  It is
  modelled as a function from the request (as \<open>net/http\<close> presents it to the handler) and
  the world outside the process (the answer of the one outbound \<open>http.Get\<close>) to what the
  handler did: the calls it made on its \<open>http.ResponseWriter\<close>, whether it returned or
  panicked, and the outbound calls it issued.  The \<open>log\<close> statements have no effect on any of
  these and are left out.

  The standard-library functions the handler calls are modelled from their documented
  behaviour in the subsections that follow; the handler itself is translated line by line in
  the subsection \<open>handleRequest\<close>.
\<close>

subsection \<open>Bytes and characters\<close>

definition byte :: "char \<Rightarrow> int" where
  "byte c = of_char c"

definition chr :: "int \<Rightarrow> char" where
  "chr n = char_of n"

definition isDigit :: "char \<Rightarrow> bool" where
  "isDigit c \<longleftrightarrow> CHR ''0'' \<le> c \<and> c \<le> CHR ''9''"

definition isHex :: "char \<Rightarrow> bool" where
  "isHex c \<longleftrightarrow> isDigit c \<or> (CHR ''a'' \<le> c \<and> c \<le> CHR ''f'') \<or> (CHR ''A'' \<le> c \<and> c \<le> CHR ''F'')"

definition unhex :: "char \<Rightarrow> int" where
  "unhex c =
     (if isDigit c then byte c - byte CHR ''0''
      else if CHR ''a'' \<le> c \<and> c \<le> CHR ''f'' then byte c - byte CHR ''a'' + 10
      else if CHR ''A'' \<le> c \<and> c \<le> CHR ''F'' then byte c - byte CHR ''A'' + 10
      else 0)"

definition quote :: char where
  "quote = CHR 0x22"

definition backslash :: char where
  "backslash = CHR 0x5C"

subsection \<open>encoding/json: the scanner\<close>

text \<open>
  \<open>json.Unmarshal\<close> first runs \<open>checkValid\<close> over the whole input: the input must be one
  JSON value (RFC 8259) between optional white space, nested at most 10000 deep.  The model
  splits the bytes into tokens and then runs the scanner's push-down automaton over them,
  building the value on the way.
\<close>

datatype token =
    TLBrace | TRBrace | TLBrack | TRBrack | TColon | TComma
  | TNull | TTrue | TFalse
  | TNum string
  | TStr string

definition isSpace :: "char \<Rightarrow> bool" where
  "isSpace c \<longleftrightarrow> c = CHR '' '' \<or> c = CHR 0x09 \<or> c = CHR 0x0D \<or> c = CHR 0x0A"

text \<open>
  A string literal after its opening quote: the raw bytes up to the closing quote, with the
  escape sequences checked but not yet decoded, and the input that follows.
\<close>

fun lex_string :: "string \<Rightarrow> (string \<times> string) option" where
  "lex_string [] = None"
| "lex_string (c # cs) =
     (if c = quote then Some ([], cs)
      else if c = backslash then
        (case cs of
           [] \<Rightarrow> None
         | e # cs1 \<Rightarrow>
             if e \<in> set [CHR ''b'', CHR ''f'', CHR ''n'', CHR ''r'', CHR ''t'', backslash, CHR ''/'', quote] then
               map_option (\<lambda>(s, rest). (c # e # s, rest)) (lex_string cs1)
             else if e = CHR ''u'' then
               (case cs1 of
                  h1 # h2 # h3 # h4 # cs2 \<Rightarrow>
                    if isHex h1 \<and> isHex h2 \<and> isHex h3 \<and> isHex h4 then
                      map_option (\<lambda>(s, rest). (c # e # h1 # h2 # h3 # h4 # s, rest)) (lex_string cs2)
                    else None
                | _ \<Rightarrow> None)
             else None)
      else if byte c < 0x20 then None
      else map_option (\<lambda>(s, rest). (c # s, rest)) (lex_string cs))"

text \<open>
  A number literal: \<open>-? (0 | [1-9][0-9]*) (. [0-9]+)? ([eE] [+-]? [0-9]+)?\<close>.
\<close>

definition lex_int :: "string \<Rightarrow> (string \<times> string) option" where
  "lex_int cs =
     (case cs of
        [] \<Rightarrow> None
      | d # cs1 \<Rightarrow>
          if d = CHR ''0'' then Some ([d], cs1)
          else if isDigit d then Some (d # takeWhile isDigit cs1, dropWhile isDigit cs1)
          else None)"

definition lex_frac :: "string \<Rightarrow> (string \<times> string) option" where
  "lex_frac cs =
     (case cs of
        d # cs1 \<Rightarrow>
          if d = CHR ''.'' then
            (if takeWhile isDigit cs1 = [] then None
             else Some (d # takeWhile isDigit cs1, dropWhile isDigit cs1))
          else Some ([], cs)
      | [] \<Rightarrow> Some ([], cs))"

definition lex_exp_digits :: "string \<Rightarrow> string \<Rightarrow> (string \<times> string) option" where
  "lex_exp_digits pre cs =
     (if takeWhile isDigit cs = [] then None
      else Some (pre @ takeWhile isDigit cs, dropWhile isDigit cs))"

definition lex_exp :: "string \<Rightarrow> (string \<times> string) option" where
  "lex_exp cs =
     (case cs of
        e # cs1 \<Rightarrow>
          if e = CHR ''e'' \<or> e = CHR ''E'' then
            (case cs1 of
               s # cs2 \<Rightarrow>
                 if s = CHR ''+'' \<or> s = CHR ''-'' then lex_exp_digits [e, s] cs2
                 else lex_exp_digits [e] cs1
             | [] \<Rightarrow> None)
          else Some ([], cs)
      | [] \<Rightarrow> Some ([], cs))"

definition lex_number :: "string \<Rightarrow> (string \<times> string) option" where
  "lex_number cs =
     (let (sign, cs0) = (case cs of c # cs' \<Rightarrow> if c = CHR ''-'' then ([c], cs') else ([], cs) | [] \<Rightarrow> ([], cs))
      in case lex_int cs0 of
           None \<Rightarrow> None
         | Some (i, cs1) \<Rightarrow>
             (case lex_frac cs1 of
                None \<Rightarrow> None
              | Some (f, cs2) \<Rightarrow>
                  (case lex_exp cs2 of
                     None \<Rightarrow> None
                   | Some (e, cs3) \<Rightarrow> Some (sign @ i @ f @ e, cs3))))"

lemma map_option_pair_Some:
  "map_option (\<lambda>(s, rest). (f s, rest)) x = Some (s', r) \<Longrightarrow> \<exists>s0. x = Some (s0, r)"
  by (cases x) auto

lemma lex_string_length: "lex_string cs = Some (s, rest) \<Longrightarrow> length rest < Suc (length cs)"
proof (induction cs arbitrary: s rest rule: lex_string.induct)
  case 1
  then show ?case by simp
next
  case (2 c cs)
  from "2.prems" show ?case
    apply (simp del: set_simps split: if_splits list.splits)
    subgoal using "2.IH"(1) by (force simp del: set_simps)
    subgoal using "2.IH"(2) by (force simp del: set_simps)
    subgoal using "2.IH"(3) by (force simp del: set_simps)
    done
qed

lemma lex_int_length: "lex_int cs = Some (s, rest) \<Longrightarrow> length rest < length cs"
  by (auto simp: lex_int_def less_Suc_eq_le length_dropWhile_le split: list.splits if_splits)

lemma lex_frac_length: "lex_frac cs = Some (s, rest) \<Longrightarrow> length rest \<le> length cs"
  by (auto simp: lex_frac_def le_SucI length_dropWhile_le split: list.splits if_splits)

lemma lex_exp_length: "lex_exp cs = Some (s, rest) \<Longrightarrow> length rest \<le> length cs"
  by (auto simp: lex_exp_def lex_exp_digits_def le_SucI length_dropWhile_le
      split: list.splits if_splits)

lemma lex_number_length: "lex_number cs = Some (s, rest) \<Longrightarrow> length rest < length cs"
proof -
  assume a: "lex_number cs = Some (s, rest)"
  define cs0 where "cs0 = (case cs of c # cs' \<Rightarrow> if c = CHR ''-'' then cs' else cs | [] \<Rightarrow> cs)"
  have l0: "length cs0 \<le> length cs"
    by (auto simp: cs0_def split: list.splits)
  from a obtain i cs1 f cs2 e where
    "lex_int cs0 = Some (i, cs1)" "lex_frac cs1 = Some (f, cs2)" "lex_exp cs2 = Some (e, rest)"
    unfolding lex_number_def cs0_def
    by (auto split: list.splits if_splits option.splits)
  then have "length cs1 < length cs0" "length cs2 \<le> length cs1" "length rest \<le> length cs2"
    by (auto dest: lex_int_length lex_frac_length lex_exp_length)
  with l0 show ?thesis by simp
qed

text \<open>The tokens of the whole input; \<open>None\<close> when some byte starts no token.\<close>

function lex :: "string \<Rightarrow> token list option" where
  "lex [] = Some []"
| "lex (c # cs) =
     (if isSpace c then lex cs
      else if c = CHR ''{'' then map_option ((#) TLBrace) (lex cs)
      else if c = CHR ''}'' then map_option ((#) TRBrace) (lex cs)
      else if c = CHR ''['' then map_option ((#) TLBrack) (lex cs)
      else if c = CHR '']'' then map_option ((#) TRBrack) (lex cs)
      else if c = CHR '':'' then map_option ((#) TColon) (lex cs)
      else if c = CHR '','' then map_option ((#) TComma) (lex cs)
      else if c = quote then
        (case lex_string cs of
           None \<Rightarrow> None
         | Some (s, rest) \<Rightarrow> map_option ((#) (TStr s)) (lex rest))
      else if c = CHR ''-'' \<or> isDigit c then
        (case lex_number (c # cs) of
           None \<Rightarrow> None
         | Some (n, rest) \<Rightarrow> map_option ((#) (TNum n)) (lex rest))
      else if c = CHR ''n'' \<and> take 3 cs = ''ull'' then map_option ((#) TNull) (lex (drop 3 cs))
      else if c = CHR ''t'' \<and> take 3 cs = ''rue'' then map_option ((#) TTrue) (lex (drop 3 cs))
      else if c = CHR ''f'' \<and> take 4 cs = ''alse'' then map_option ((#) TFalse) (lex (drop 4 cs))
      else None)"
  by pat_completeness auto
termination
  apply (relation "measure length")
  apply simp_all
  subgoal for c cs x2 s rest using lex_string_length[of cs s rest] by simp
  subgoal for c cs x2 n rest using lex_number_length[of "c # cs" n rest] by simp
  done

subsection \<open>encoding/json: the parser state\<close>

datatype json =
    JNull
  | JBool bool
  | JNumber string
  | JString string
  | JArray "json list"
  | JObject "(string \<times> json) list"

text \<open>
  The scanner keeps a stack of the containers that are open (\<open>parseState\<close>) and a step
  function that says what may come next.  \<open>FArray\<close> holds the elements read so far, last
  first; \<open>FObject\<close> the members read so far, last first, and the key that waits for its
  value.
\<close>

datatype frame =
    FArray "json list"
  | FObject "(string \<times> json) list" "string option"

datatype scan_state =
    BeginValue
  | BeginValueOrEmpty
  | BeginStringOrEmpty
  | BeginString
  | ExpectColon
  | EndValue
  | EndTop json

definition maxNestingDepth :: nat where
  "maxNestingDepth = 10000"

text \<open>A finished value goes into the innermost open container, or ends the text.\<close>

fun deliver :: "json \<Rightarrow> frame list \<Rightarrow> (scan_state \<times> frame list) option" where
  "deliver v [] = Some (EndTop v, [])"
| "deliver v (FArray acc # st) = Some (EndValue, FArray (v # acc) # st)"
| "deliver v (FObject acc (Some k) # st) = Some (EndValue, FObject ((k, v) # acc) None # st)"
| "deliver v (FObject acc None # st) = None"

definition push :: "frame \<Rightarrow> scan_state \<Rightarrow> frame list \<Rightarrow> (scan_state \<times> frame list) option" where
  "push f succ st = (if Suc (length st) \<le> maxNestingDepth then Some (succ, f # st) else None)"

definition begin_value :: "token \<Rightarrow> frame list \<Rightarrow> (scan_state \<times> frame list) option" where
  "begin_value t st =
     (case t of
        TLBrace \<Rightarrow> push (FObject [] None) BeginStringOrEmpty st
      | TLBrack \<Rightarrow> push (FArray []) BeginValueOrEmpty st
      | TNull \<Rightarrow> deliver JNull st
      | TTrue \<Rightarrow> deliver (JBool True) st
      | TFalse \<Rightarrow> deliver (JBool False) st
      | TNum n \<Rightarrow> deliver (JNumber n) st
      | TStr s \<Rightarrow> deliver (JString s) st
      | _ \<Rightarrow> None)"

definition begin_key :: "token \<Rightarrow> frame list \<Rightarrow> (scan_state \<times> frame list) option" where
  "begin_key t st =
     (case (t, st) of
        (TStr k, FObject acc None # st') \<Rightarrow> Some (ExpectColon, FObject acc (Some k) # st')
      | _ \<Rightarrow> None)"

definition end_value :: "token \<Rightarrow> frame list \<Rightarrow> (scan_state \<times> frame list) option" where
  "end_value t st =
     (case (t, st) of
        (TComma, FArray acc # st') \<Rightarrow> Some (BeginValue, st)
      | (TRBrack, FArray acc # st') \<Rightarrow> deliver (JArray (rev acc)) st'
      | (TComma, FObject acc None # st') \<Rightarrow> Some (BeginString, st)
      | (TRBrace, FObject acc None # st') \<Rightarrow> deliver (JObject (rev acc)) st'
      | _ \<Rightarrow> None)"

definition scan_step :: "scan_state \<Rightarrow> frame list \<Rightarrow> token \<Rightarrow> (scan_state \<times> frame list) option" where
  "scan_step s st t =
     (case s of
        BeginValue \<Rightarrow> begin_value t st
      | BeginValueOrEmpty \<Rightarrow> (if t = TRBrack then end_value t st else begin_value t st)
      | BeginStringOrEmpty \<Rightarrow> (if t = TRBrace then end_value t st else begin_key t st)
      | BeginString \<Rightarrow> begin_key t st
      | ExpectColon \<Rightarrow> (if t = TColon then Some (BeginValue, st) else None)
      | EndValue \<Rightarrow> end_value t st
      | EndTop v \<Rightarrow> None)"

fun scan :: "scan_state \<Rightarrow> frame list \<Rightarrow> token list \<Rightarrow> json option" where
  "scan s st [] = (case s of EndTop v \<Rightarrow> Some v | _ \<Rightarrow> None)"
| "scan s st (t # ts) =
     (case scan_step s st t of
        None \<Rightarrow> None
      | Some (s', st') \<Rightarrow> scan s' st' ts)"

text \<open>
  \<open>checkValid\<close> together with the tree of the value: \<open>None\<close> is a \<open>SyntaxError\<close>.
  The strings of the tree are still in their escaped form.
\<close>

definition checkValid :: "string \<Rightarrow> json option" where
  "checkValid data = (case lex data of None \<Rightarrow> None | Some ts \<Rightarrow> scan BeginValue [] ts)"


subsection \<open>encoding/json: decoding strings and numbers\<close>

text \<open>
  \<open>utf8.DecodeRune\<close>: the number of bytes of the well-formed UTF-8 sequence at the head of
  the input, and 0 when there is none (the decoder then yields \<open>RuneError\<close> and moves on
  by one byte).
\<close>

definition isCont :: "char \<Rightarrow> bool" where
  "isCont c \<longleftrightarrow> 0x80 \<le> byte c \<and> byte c \<le> 0xBF"

definition second_lo :: "int \<Rightarrow> int" where
  "second_lo b0 = (if b0 = 0xE0 then 0xA0 else if b0 = 0xF0 then 0x90 else 0x80)"

definition second_hi :: "int \<Rightarrow> int" where
  "second_hi b0 = (if b0 = 0xED then 0x9F else if b0 = 0xF4 then 0x8F else 0xBF)"

definition utf8_width :: "string \<Rightarrow> nat" where
  "utf8_width cs =
     (case cs of
        [] \<Rightarrow> 0
      | c0 # r \<Rightarrow>
          let b0 = byte c0;
              second_ok = (\<lambda>c1. second_lo b0 \<le> byte c1 \<and> byte c1 \<le> second_hi b0)
          in if b0 < 0x80 then 1
             else if 0xC2 \<le> b0 \<and> b0 \<le> 0xDF then
               (case r of c1 # _ \<Rightarrow> if second_ok c1 then 2 else 0 | _ \<Rightarrow> 0)
             else if 0xE0 \<le> b0 \<and> b0 \<le> 0xEF then
               (case r of c1 # c2 # _ \<Rightarrow> if second_ok c1 \<and> isCont c2 then 3 else 0 | _ \<Rightarrow> 0)
             else if 0xF0 \<le> b0 \<and> b0 \<le> 0xF4 then
               (case r of
                  c1 # c2 # c3 # _ \<Rightarrow> if second_ok c1 \<and> isCont c2 \<and> isCont c3 then 4 else 0
                | _ \<Rightarrow> 0)
             else 0)"

definition RuneError :: int where
  "RuneError = 0xFFFD"

text \<open>\<open>utf8.EncodeRune\<close>.\<close>

definition EncodeRune :: "int \<Rightarrow> string" where
  "EncodeRune r =
     (if r \<le> 0x7F then [chr r]
      else if r \<le> 0x7FF then [chr (0xC0 + r div 64), chr (0x80 + r mod 64)]
      else if 0x10FFFF < r \<or> (0xD800 \<le> r \<and> r \<le> 0xDFFF) then [chr 0xEF, chr 0xBF, chr 0xBD]
      else if r \<le> 0xFFFF then
        [chr (0xE0 + r div 4096), chr (0x80 + (r div 64) mod 64), chr (0x80 + r mod 64)]
      else
        [chr (0xF0 + r div 262144), chr (0x80 + (r div 4096) mod 64),
         chr (0x80 + (r div 64) mod 64), chr (0x80 + r mod 64)])"

text \<open>\<open>getu4\<close>: the code unit of a leading \<open>\uXXXX\<close>, if there is one.\<close>

definition getu4 :: "string \<Rightarrow> int option" where
  "getu4 s =
     (case s of
        b # u # h1 # h2 # h3 # h4 # _ \<Rightarrow>
          if b = backslash \<and> u = CHR ''u'' \<and> isHex h1 \<and> isHex h2 \<and> isHex h3 \<and> isHex h4
          then Some (((unhex h1 * 16 + unhex h2) * 16 + unhex h3) * 16 + unhex h4)
          else None
      | _ \<Rightarrow> None)"

definition isSurrogate :: "int \<Rightarrow> bool" where
  "isSurrogate r \<longleftrightarrow> 0xD800 \<le> r \<and> r < 0xE000"

text \<open>\<open>utf16.DecodeRune\<close>, with \<open>None\<close> for the replacement character.\<close>

definition utf16_DecodeRune :: "int \<Rightarrow> int option \<Rightarrow> int option" where
  "utf16_DecodeRune r1 r2 =
     (case r2 of
        None \<Rightarrow> None
      | Some r2' \<Rightarrow>
          if 0xD800 \<le> r1 \<and> r1 < 0xDC00 \<and> 0xDC00 \<le> r2' \<and> r2' < 0xE000
          then Some ((r1 - 0xD800) * 1024 + (r2' - 0xDC00) + 0x10000)
          else None)"

definition unescape_char :: "char \<Rightarrow> char" where
  "unescape_char e =
     (if e = CHR ''b'' then CHR 0x08
      else if e = CHR ''f'' then CHR 0x0C
      else if e = CHR ''n'' then CHR 0x0A
      else if e = CHR ''r'' then CHR 0x0D
      else if e = CHR ''t'' then CHR 0x09
      else e)"

text \<open>
  \<open>unquote\<close> on the inside of a literal the scanner has accepted: escapes are replaced, a
  \<open>\u\<close> surrogate without its partner and every byte that is not part of well-formed
  UTF-8 become U+FFFD.
\<close>

function unquote :: "string \<Rightarrow> string" where
  "unquote [] = []"
| "unquote (c # cs) =
     (if c = backslash then
        (case getu4 (c # cs) of
           Some rr \<Rightarrow>
             (if isSurrogate rr then
                (case utf16_DecodeRune rr (getu4 (drop 5 cs)) of
                   Some dec \<Rightarrow> EncodeRune dec @ unquote (drop 11 cs)
                 | None \<Rightarrow> EncodeRune RuneError @ unquote (drop 5 cs))
              else EncodeRune rr @ unquote (drop 5 cs))
         | None \<Rightarrow>
             (case cs of
                [] \<Rightarrow> []
              | e # cs1 \<Rightarrow> unescape_char e # unquote cs1))
      else if byte c < 0x80 then c # unquote cs
      else if utf8_width (c # cs) = 0 then EncodeRune RuneError @ unquote cs
      else take (utf8_width (c # cs)) (c # cs) @ unquote (drop (utf8_width (c # cs)) (c # cs)))"
  by pat_completeness auto
termination
  apply (relation "measure length")
  apply simp_all
  done

text \<open>
  \<open>strconv.ParseFloat(s, 64)\<close> on a JSON number literal rounds the decimal to the nearest
  \<open>float64\<close> and fails with a range error exactly when the result is infinite, that is
  when the magnitude reaches \<open>2^1024 - 2^970\<close>.  The magnitude it reads is
  \<open>mantissa * 10 ^ exponent\<close>, where the digits of the exponent are no longer added
  once the exponent has reached 10000.
\<close>

definition digits_value :: "string \<Rightarrow> int" where
  "digits_value ds = foldl (\<lambda>n d. 10 * n + (byte d - byte CHR ''0'')) 0 ds"

definition exponent_value :: "string \<Rightarrow> int" where
  "exponent_value ds =
     foldl (\<lambda>e d. if e < 10000 then 10 * e + (byte d - byte CHR ''0'') else e) 0 ds"

definition literal_mantissa :: "string \<Rightarrow> int" where
  "literal_mantissa s =
     (let s0 = (case s of c # r \<Rightarrow> if c = CHR ''-'' then r else s | [] \<Rightarrow> s);
          ip = takeWhile isDigit s0;
          r1 = dropWhile isDigit s0;
          fp = (case r1 of c # r \<Rightarrow> if c = CHR ''.'' then takeWhile isDigit r else [] | [] \<Rightarrow> [])
      in digits_value (ip @ fp))"

definition literal_exponent :: "string \<Rightarrow> int" where
  "literal_exponent s =
     (let s0 = (case s of c # r \<Rightarrow> if c = CHR ''-'' then r else s | [] \<Rightarrow> s);
          r1 = dropWhile isDigit s0;
          fp = (case r1 of c # r \<Rightarrow> if c = CHR ''.'' then takeWhile isDigit r else [] | [] \<Rightarrow> []);
          r2 = (case r1 of c # r \<Rightarrow> if c = CHR ''.'' then dropWhile isDigit r else r1 | [] \<Rightarrow> []);
          ex = (case r2 of
                  [] \<Rightarrow> 0
                | e # r \<Rightarrow>
                    (case r of
                       [] \<Rightarrow> 0
                     | sg # ds \<Rightarrow>
                         if sg = CHR ''-'' then - exponent_value ds
                         else if sg = CHR ''+'' then exponent_value ds
                         else exponent_value r))
      in ex - int (length fp))"

definition float64_range_error :: "string \<Rightarrow> bool" where
  "float64_range_error s =
     (let m = literal_mantissa s; e = literal_exponent s; bound = 2 ^ 1024 - 2 ^ 970
      in if 0 \<le> e then bound \<le> m * 10 ^ nat e else bound * 10 ^ nat (- e) \<le> m)"

subsection \<open>strconv and fmt: a float64 and its text\<close>

text \<open>The number of binary digits, and the decimal digits, of a natural number.\<close>

function bitlen :: "int \<Rightarrow> int" where
  "bitlen n = (if n \<le> 0 then 0 else 1 + bitlen (n div 2))"
  by pat_completeness auto
termination
  by (relation "measure nat") auto

function decimal :: "int \<Rightarrow> string" where
  "decimal n = (if n < 10 then [chr (byte CHR ''0'' + n)] else decimal (n div 10) @ [chr (byte CHR ''0'' + n mod 10)])"
  by pat_completeness auto
termination
  by (relation "measure nat") auto

text \<open>
  The \<open>float64\<close> that \<open>ParseFloat\<close> returns for a literal in range, as the pair
  \<open>(n, ex)\<close> of its magnitude \<open>n * 2 ^ ex\<close> with \<open>n < 2 ^ 53\<close> and \<open>ex \<ge> -1074\<close>:
  the number nearest to the literal, the even \<open>n\<close> of two that are equally near; \<open>n = 0\<close>
  is zero.  The sign is that of the literal.
\<close>

definition fraction :: "int \<Rightarrow> int \<Rightarrow> int \<times> int" where
  "fraction m e = (if 0 \<le> e then (m * 10 ^ nat e, 1) else (m, 10 ^ nat (- e)))"

definition literal_fraction :: "string \<Rightarrow> int \<times> int" where
  "literal_fraction s = fraction (literal_mantissa s) (literal_exponent s)"

text \<open>The fraction \<open>q\<close> divided by \<open>2 ^ ex\<close>.\<close>

definition scale2 :: "int \<Rightarrow> int \<times> int \<Rightarrow> int \<times> int" where
  "scale2 ex q = (if 0 \<le> ex then (fst q, snd q * 2 ^ nat ex) else (fst q * 2 ^ nat (- ex), snd q))"

text \<open>
  The integer nearest to a fraction, the even one of two that are equally near, from the
  quotient and the remainder of the division.
\<close>

definition nearest_even :: "int \<Rightarrow> int \<Rightarrow> int \<Rightarrow> int" where
  "nearest_even c r d =
     (if 2 * r < d then c
      else if d < 2 * r then c + 1
      else if even c then c else c + 1)"

definition round_half_even :: "int \<times> int \<Rightarrow> int" where
  "round_half_even q = nearest_even (fst q div snd q) (fst q mod snd q) (snd q)"

definition renormalise :: "int \<Rightarrow> int \<Rightarrow> int \<times> int" where
  "renormalise n ex = (if n = 2 ^ 53 then (2 ^ 52, ex + 1) else (n, ex))"

definition round_at :: "int \<times> int \<Rightarrow> int \<Rightarrow> int \<times> int" where
  "round_at q ex = renormalise (round_half_even (scale2 ex q)) ex"

text \<open>
  With \<open>ex0 = bitlen num - bitlen den - 53\<close> the fraction divided by \<open>2 ^ ex0\<close> lies
  between \<open>2 ^ 52\<close> and \<open>2 ^ 54\<close>; the exponent is \<open>ex0\<close> or \<open>ex0 + 1\<close>, and not less
  than -1074.
\<close>

definition below_2_53 :: "int \<times> int \<Rightarrow> bool" where
  "below_2_53 q \<longleftrightarrow> fst q < 2 ^ 53 * snd q"

definition binary_exponent :: "int \<times> int \<Rightarrow> int \<Rightarrow> int" where
  "binary_exponent q ex0 = max (if below_2_53 (scale2 ex0 q) then ex0 else ex0 + 1) (- 1074)"

definition parse_fraction :: "int \<times> int \<Rightarrow> int \<times> int" where
  "parse_fraction q =
     (if fst q = 0 then (0, 0)
      else round_at q (binary_exponent q (bitlen (fst q) - bitlen (snd q) - 53)))"

definition ParseFloat :: "string \<Rightarrow> int \<times> int" where
  "ParseFloat s = parse_fraction (literal_fraction s)"

text \<open>
  \<open>%v\<close> prints a \<open>float64\<close> with \<open>strconv.FormatFloat(f, 'g', -1, 64)\<close>: the
  shortest decimal that \<open>ParseFloat\<close> reads back as \<open>f\<close>.  Such a decimal lies between
  the midpoints to the two neighbours of \<open>f\<close> (the midpoints themselves when \<open>n\<close> is
  even).  The value and the two midpoints are kept as multiples of \<open>1 / b_unit\<close>;
  \<open>b_last\<close> is a decimal place at which the value has no further digits.
\<close>

record bounds =
  b_value :: int
  b_lower :: int
  b_upper :: int
  b_unit :: int
  b_inclusive :: bool
  b_last :: int

definition bounds_at :: "int \<Rightarrow> int \<Rightarrow> int \<Rightarrow> bounds" where
  "bounds_at n ex up =
     \<lparr>b_value = 4 * n * up,
      b_lower = (if n = 2 ^ 52 \<and> - 1074 < ex then 4 * n - 1 else 4 * n - 2) * up,
      b_upper = (4 * n + 2) * up,
      b_unit = (if 0 \<le> ex - 2 then 1 else 2 ^ nat (2 - ex)),
      b_inclusive = even n,
      b_last = min ex 0\<rparr>"

definition float_bounds :: "int \<times> int \<Rightarrow> bounds" where
  "float_bounds f = bounds_at (fst f) (snd f) (if 0 \<le> snd f - 2 then 2 ^ nat (snd f - 2) else 1)"

definition pow10 :: "int \<Rightarrow> int" where
  "pow10 p = (if 0 \<le> p then 10 ^ nat p else 1)"

text \<open>
  At one decimal place, with all numbers multiplied by \<open>t\<close> and the unit of the place
  \<open>y\<close>: \<open>c\<close> is the value cut off at the place.  Cutting off is allowed when the result
  lies above the lower bound (or on it, when the bounds count), and so is the next decimal
  \<open>c + 1\<close> when it lies below the upper bound (or on it).  Of the two the allowed one is
  taken, or the nearer one when both are; \<open>None\<close> when neither is allowed.
\<close>

definition pick :: "bounds \<Rightarrow> int \<Rightarrow> int \<Rightarrow> int \<Rightarrow> int option" where
  "pick b t y c =
     (let okdown = (b_lower b * t < c * y \<or> (b_inclusive b \<and> b_lower b * t = c * y));
          okup = ((c + 1) * y < b_upper b * t \<or> (b_inclusive b \<and> (c + 1) * y = b_upper b * t))
      in if okdown \<and> okup then Some (nearest_even c (b_value b * t - c * y) y)
         else if okdown then Some c
         else if okup then Some (c + 1)
         else None)"

definition at_place :: "bounds \<Rightarrow> int \<Rightarrow> int \<Rightarrow> int option" where
  "at_place b t y = pick b t y ((b_value b * t) div y)"

text \<open>
  From the decimal place \<open>p\<close> downwards, the first place with a choice; at the last place
  the value itself.  The result is the pair of the digits, as a number, and the place of the
  last digit.
\<close>

function shortest :: "bounds \<Rightarrow> int \<Rightarrow> int \<times> int" where
  "shortest b p =
     (case at_place b (pow10 (- p)) (b_unit b * pow10 p) of
        Some d \<Rightarrow> (d, p)
      | None \<Rightarrow>
          if p \<le> b_last b then ((b_value b * pow10 (- p)) div (b_unit b * pow10 p), p)
          else shortest b (p - 1))"
  by pat_completeness auto
termination
  by (relation "measure (\<lambda>(b, p). nat (p - b_last b))") auto

text \<open>The search starts at the place above the first digit of the upper bound.\<close>

definition shortest_decimal :: "bounds \<Rightarrow> int \<times> int" where
  "shortest_decimal b = shortest b (int (length (decimal (b_upper b div b_unit b))))"

text \<open>
  The digits are printed as \<open>d.ddde+XX\<close> when the exponent is below -4 or at least 6, and
  without an exponent otherwise; \<open>dp\<close> is the place of the decimal point among the digits.
\<close>

definition trim_zeros :: "string \<Rightarrow> string" where
  "trim_zeros ds = rev (dropWhile (\<lambda>c. c = CHR ''0'') (rev ds))"

definition fmtE :: "string \<Rightarrow> int \<Rightarrow> string" where
  "fmtE ds dp =
     [hd ds] @ (if tl ds = [] then [] else ''.'' @ tl ds) @ ''e''
     @ (if dp - 1 < 0 then ''-'' else ''+'')
     @ (if \<bar>dp - 1\<bar> < 10 then ''0'' else []) @ decimal \<bar>dp - 1\<bar>"

definition fmtF :: "string \<Rightarrow> int \<Rightarrow> string" where
  "fmtF ds dp =
     (if dp \<le> 0 then ''0.'' @ replicate (nat (- dp)) CHR ''0'' @ ds
      else take (nat dp) ds @ replicate (nat dp - length ds) CHR ''0''
           @ (if drop (nat dp) ds = [] then [] else ''.'' @ drop (nat dp) ds))"

definition format_digits :: "string \<Rightarrow> int \<Rightarrow> string" where
  "format_digits ds dp = (if dp - 1 < - 4 \<or> 6 \<le> dp - 1 then fmtE ds dp else fmtF ds dp)"

definition format_decimal :: "string \<Rightarrow> int \<Rightarrow> string" where
  "format_decimal ds p = format_digits (trim_zeros ds) (int (length ds) + p)"

definition format_value :: "int \<times> int \<Rightarrow> string" where
  "format_value f =
     (if fst f = 0 then ''0''
      else case shortest_decimal (float_bounds f) of
             (d, p) \<Rightarrow> format_decimal (decimal d) p)"

definition format_float64 :: "string \<Rightarrow> string" where
  "format_float64 s =
     (case s of c # _ \<Rightarrow> if c = CHR ''-'' then ''-'' else [] | [] \<Rightarrow> []) @ format_value (ParseFloat s)"

subsection \<open>encoding/json: Unmarshal into a map[string]interface{}\<close>

text \<open>
  The values an \<open>interface{}\<close> holds in this program: what \<open>json.Unmarshal\<close> stores
  (\<open>nil\<close>, \<open>bool\<close>, \<open>float64\<close>, \<open>string\<close>, \<open>[]interface{}\<close>,
  \<open>map[string]interface{}\<close>) and the \<open>[]string\<close> of a repeated form field.  A
  \<open>float64\<close> is kept as the literal it was read from (\<open>ParseFloat\<close> gives its value).  A Go map is an association list
  with distinct keys; \<open>AList.update\<close> is the assignment \<open>m[k] = v\<close>.
\<close>

datatype "value" =
    VNil
  | VBool bool
  | VFloat64 string
  | VString string
  | VStrings "string list"
  | VSlice "value list"
  | VMap "(string \<times> value) list"

type_synonym gomap = "(string \<times> value) list"

definition assign_all :: "(string \<times> value) list \<Rightarrow> gomap \<Rightarrow> gomap" where
  "assign_all kvs m = fold (\<lambda>kv. AList.update (fst kv) (snd kv)) kvs m"

text \<open>
  \<open>valueInterface\<close>: the Go value of a JSON value.  A number out of range leaves \<open>nil\<close>
  and records an error (\<open>has_range_error\<close>); members of an object are assigned in their
  order, so of two members with one key the later one stays.
\<close>

fun valueInterface :: "json \<Rightarrow> value" where
  "valueInterface JNull = VNil"
| "valueInterface (JBool b) = VBool b"
| "valueInterface (JNumber n) = (if float64_range_error n then VNil else VFloat64 n)"
| "valueInterface (JString s) = VString (unquote s)"
| "valueInterface (JArray xs) = VSlice (map valueInterface xs)"
| "valueInterface (JObject kvs) =
     VMap (assign_all (map (map_prod unquote valueInterface) kvs) [])"

fun has_range_error :: "json \<Rightarrow> bool" where
  "has_range_error (JNumber n) = float64_range_error n"
| "has_range_error (JArray xs) = list_ex has_range_error xs"
| "has_range_error (JObject kvs) = list_ex has_range_error (map snd kvs)"
| "has_range_error _ = False"

datatype json_error = SyntaxError | UnmarshalTypeError

text \<open>
  \<open>json.Unmarshal(data, &m)\<close> for \<open>m\<close> of type \<open>map[string]interface{}\<close>; \<open>None\<close>
  is the nil map.  Returns the error and the new value of \<open>m\<close>.
  \<^item> Input that is not JSON: a \<open>SyntaxError\<close>, \<open>m\<close> untouched.
  \<^item> The literal \<open>null\<close>: no error, and \<open>m\<close> is set to nil.
  \<^item> An object: \<open>m\<close> is allocated if it was nil and the members are assigned; the
    error is the one recorded for a number out of range, if any.
  \<^item> Any other value: an \<open>UnmarshalTypeError\<close>, \<open>m\<close> untouched.
\<close>

definition json_Unmarshal :: "string \<Rightarrow> gomap option \<Rightarrow> json_error option \<times> gomap option" where
  "json_Unmarshal data m =
     (case checkValid data of
        None \<Rightarrow> (Some SyntaxError, m)
      | Some j \<Rightarrow>
          (case j of
             JNull \<Rightarrow> (None, None)
           | JObject kvs \<Rightarrow>
               (if has_range_error j then Some UnmarshalTypeError else None,
                Some (assign_all (map (map_prod unquote valueInterface) kvs)
                        (case m of None \<Rightarrow> [] | Some m0 \<Rightarrow> m0)))
           | _ \<Rightarrow> (Some UnmarshalTypeError, m)))"


subsection \<open>net/url and net/http: what the handler reads\<close>

text \<open>\<open>url.QueryUnescape\<close>: \<open>%XX\<close> is a byte, \<open>+\<close> a space; \<open>None\<close> is an \<open>EscapeError\<close>.\<close>

fun QueryUnescape :: "string \<Rightarrow> string option" where
  "QueryUnescape [] = Some []"
| "QueryUnescape (c # cs) =
     (if c = CHR ''%'' then
        (case cs of
           h1 # h2 # rest \<Rightarrow>
             if isHex h1 \<and> isHex h2
             then map_option ((#) (chr (unhex h1 * 16 + unhex h2))) (QueryUnescape rest)
             else None
         | _ \<Rightarrow> None)
      else if c = CHR ''+'' then map_option ((#) CHR '' '') (QueryUnescape cs)
      else map_option ((#) c) (QueryUnescape cs))"

text \<open>The pieces of a string between occurrences of a separator.\<close>

fun split :: "char \<Rightarrow> string \<Rightarrow> string list" where
  "split sep [] = [[]]"
| "split sep (c # cs) =
     (if c = sep then [] # split sep cs
      else (case split sep cs of p # ps \<Rightarrow> (c # p) # ps | [] \<Rightarrow> [[c]]))"

text \<open>\<open>strings.Cut(s, "=")\<close>: the text before the first \<open>=\<close> and the text after it.\<close>

definition Cut_eq :: "string \<Rightarrow> string \<times> string" where
  "Cut_eq s = (takeWhile (\<lambda>c. c \<noteq> CHR ''='') s, drop 1 (dropWhile (\<lambda>c. c \<noteq> CHR ''='') s))"

text \<open>
  \<open>url.Values\<close> is a \<open>map[string][]string\<close>.  \<open>parseQuery\<close> takes the pieces between
  \<open>&\<close> in order; a piece that is empty, holds a semicolon or has a bad escape is skipped,
  any other one appends its value to the list of its key.
\<close>

type_synonym Values = "(string \<times> string list) list"

definition Values_append :: "string \<Rightarrow> string \<Rightarrow> Values \<Rightarrow> Values" where
  "Values_append k v m = AList.update k ((case map_of m k of None \<Rightarrow> [] | Some vs \<Rightarrow> vs) @ [v]) m"

definition parse_pair :: "string \<Rightarrow> Values \<Rightarrow> Values" where
  "parse_pair key m =
     (if CHR '';'' \<in> set key then m
      else if key = [] then m
      else (case QueryUnescape (fst (Cut_eq key)) of
              None \<Rightarrow> m
            | Some k \<Rightarrow>
                (case QueryUnescape (snd (Cut_eq key)) of
                   None \<Rightarrow> m
                 | Some v \<Rightarrow> Values_append k v m)))"

definition ParseQuery :: "string \<Rightarrow> Values" where
  "ParseQuery query = fold parse_pair (split CHR ''&'' query) []"

text \<open>\<open>textproto.CanonicalMIMEHeaderKey\<close>.\<close>

definition isLower :: "char \<Rightarrow> bool" where
  "isLower c \<longleftrightarrow> CHR ''a'' \<le> c \<and> c \<le> CHR ''z''"

definition isUpper :: "char \<Rightarrow> bool" where
  "isUpper c \<longleftrightarrow> CHR ''A'' \<le> c \<and> c \<le> CHR ''Z''"

definition validHeaderFieldByte :: "char \<Rightarrow> bool" where
  "validHeaderFieldByte c \<longleftrightarrow>
     isLower c \<or> isUpper c \<or> isDigit c \<or> c \<in> set (''!#$%&*+-.^_`|~'' @ [CHR 0x27])"

fun canonical :: "bool \<Rightarrow> string \<Rightarrow> string" where
  "canonical upper [] = []"
| "canonical upper (c # cs) =
     (let c' = (if upper \<and> isLower c then chr (byte c - 32)
                else if \<not> upper \<and> isUpper c then chr (byte c + 32)
                else c)
      in c' # canonical (c' = CHR ''-'') cs)"

definition CanonicalMIMEHeaderKey :: "string \<Rightarrow> string" where
  "CanonicalMIMEHeaderKey s = (if list_all validHeaderFieldByte s then canonical True s else s)"

text \<open>
  \<open>http.Header\<close> is a \<open>map[string][]string\<close> under canonical keys.  \<open>Get\<close> returns the
  first value of the key, or the empty string; \<open>Set\<close> replaces the values of the key.
\<close>

type_synonym Header = "(string \<times> string list) list"

definition Header_Get :: "Header \<Rightarrow> string \<Rightarrow> string" where
  "Header_Get h key =
     (case map_of h (CanonicalMIMEHeaderKey key) of
        Some (v # _) \<Rightarrow> v
      | _ \<Rightarrow> [])"

definition Header_Set :: "Header \<Rightarrow> string \<Rightarrow> string \<Rightarrow> Header" where
  "Header_Set h key v = AList.update (CanonicalMIMEHeaderKey key) [v] h"

datatype go_error = ErrNoCookie | ErrBodyNotAllowed | ErrOther string

text \<open>
  The request as the handler sees it: \<open>r.Method\<close>, \<open>r.URL.RawQuery\<close>, \<open>r.Header\<close>, the
  cookies \<open>net/http\<close> reads from the \<open>Cookie\<close> header lines, as name and value in their
  order, and what \<open>ioutil.ReadAll(r.Body)\<close> returns.
\<close>

record Request =
  Method :: string
  RawQuery :: string
  Header :: Header
  Cookies :: "(string \<times> string) list"
  Body :: "go_error + string"

text \<open>
  \<open>r.ParseForm()\<close> followed by \<open>r.Form\<close>, for a GET request: the parsed query.  The
  handler ignores the error of \<open>ParseForm\<close>.
\<close>

definition Form :: "Request \<Rightarrow> Values" where
  "Form r = ParseQuery (RawQuery r)"

text \<open>\<open>r.Cookie(name)\<close>: the first cookie of that name, or \<open>ErrNoCookie\<close>.\<close>

definition Cookie :: "Request \<Rightarrow> string \<Rightarrow> go_error + (string \<times> string)" where
  "Cookie r name =
     (case filter (\<lambda>c. fst c = name) (Cookies r) of
        c # _ \<Rightarrow> Inr c
      | [] \<Rightarrow> Inl ErrNoCookie)"

subsection \<open>net/http: what the handler writes\<close>

text \<open>
  The \<open>http.ResponseWriter\<close> of the server (\<open>http.response\<close>): the header map, the
  informational responses sent so far (status and headers), the status of the response once
  its header is written, and the bytes of the body accepted so far.
\<close>

record ResponseWriter =
  w_header :: Header
  w_informational :: "(int \<times> Header) list"
  w_status :: "int option"
  w_body :: string

definition new_writer :: ResponseWriter where
  "new_writer = \<lparr>w_header = [], w_informational = [], w_status = None, w_body = []\<rparr>"

definition set_header :: "ResponseWriter \<Rightarrow> string \<Rightarrow> string \<Rightarrow> ResponseWriter" where
  "set_header w key v = w\<lparr>w_header := Header_Set (w_header w) key v\<rparr>"

text \<open>
  \<open>WriteHeader\<close>: once the header is written a further call does nothing.  Before that, a
  code below 100 or above 999 panics (\<open>None\<close>); a code from 100 to 199 other than 101
  sends an informational response and leaves the header unwritten; any other code is the
  status of the response.
\<close>

definition WriteHeader :: "ResponseWriter \<Rightarrow> int \<Rightarrow> ResponseWriter option" where
  "WriteHeader w code =
     (case w_status w of
        Some _ \<Rightarrow> Some w
      | None \<Rightarrow>
          if code < 100 \<or> 999 < code then None
          else if 100 \<le> code \<and> code \<le> 199 \<and> code \<noteq> 101
            then Some (w\<lparr>w_informational := w_informational w @ [(code, w_header w)]\<rparr>)
          else Some (w\<lparr>w_status := Some code\<rparr>))"

definition bodyAllowedForStatus :: "int \<Rightarrow> bool" where
  "bodyAllowedForStatus status \<longleftrightarrow>
     \<not> (100 \<le> status \<and> status \<le> 199) \<and> status \<noteq> 204 \<and> status \<noteq> 304"

text \<open>
  \<open>Write\<close>: writes the header with status 200 if it is not written yet; then an empty
  write does nothing more, and bytes for a status that allows no body are refused with
  \<open>ErrBodyNotAllowed\<close>.
\<close>

definition Write :: "ResponseWriter \<Rightarrow> string \<Rightarrow> ResponseWriter \<times> go_error option" where
  "Write w bs =
     (let status = (case w_status w of None \<Rightarrow> 200 | Some code \<Rightarrow> code);
          w' = w\<lparr>w_status := Some status\<rparr>
      in if bs = [] then (w', None)
         else if \<not> bodyAllowedForStatus status then (w', Some ErrBodyNotAllowed)
         else (w'\<lparr>w_body := w_body w' @ bs\<rparr>, None))"

text \<open>How a call of the handler, or of a function that may panic, ends.\<close>

datatype outcome = Returned | Panicked

text \<open>
  \<open>http.Error\<close>: sets two headers, writes the header with the code and prints the message
  with \<open>fmt.Fprintln\<close>, which ends it with a newline and whose error is ignored.
\<close>

definition http_Error :: "ResponseWriter \<Rightarrow> string \<Rightarrow> int \<Rightarrow> ResponseWriter \<times> outcome" where
  "http_Error w err code =
     (let w1 = set_header w ''Content-Type'' ''text/plain; charset=utf-8'';
          w2 = set_header w1 ''X-Content-Type-Options'' ''nosniff''
      in case WriteHeader w2 code of
           None \<Rightarrow> (w2, Panicked)
         | Some w3 \<Rightarrow> (fst (Write w3 (err @ [CHR 0x0A])), Returned))"

definition MethodGet :: string where "MethodGet = ''GET''"
definition MethodPost :: string where "MethodPost = ''POST''"
definition StatusOK :: int where "StatusOK = 200"
definition StatusBadRequest :: int where "StatusBadRequest = 400"
definition StatusMethodNotAllowed :: int where "StatusMethodNotAllowed = 405"
definition StatusInternalServerError :: int where "StatusInternalServerError = 500"

text \<open>
  What lies outside the handler: the answer of \<open>http.Get\<close> to a URL, an error or a status
  code with what \<open>ioutil.ReadAll\<close> gets from the body.
\<close>

record Response =
  StatusCode :: int
  RespBody :: "go_error + string"

record env =
  http_Get :: "string \<Rightarrow> go_error + Response"


subsection \<open>fmt and html/template: the page\<close>

fun join :: "string list \<Rightarrow> string" where
  "join [] = []"
| "join [s] = s"
| "join (s # t # ss) = s @ '' '' @ join (t # ss)"

text \<open>
  \<open>printf "%v"\<close>: a string prints as it is, a slice as \<open>[a b]\<close>, a map as
  \<open>map[k:v k:v]\<close> with its keys in order, a nil interface as \<open><nil>\<close>.
\<close>

fun Sprint :: "value \<Rightarrow> string" where
  "Sprint VNil = ''<nil>''"
| "Sprint (VBool b) = (if b then ''true'' else ''false'')"
| "Sprint (VFloat64 n) = format_float64 n"
| "Sprint (VString s) = s"
| "Sprint (VStrings ss) = ''['' @ join ss @ '']''"
| "Sprint (VSlice vs) = ''['' @ join (map Sprint vs) @ '']''"
| "Sprint (VMap kvs) =
     ''map['' @ join (map (\<lambda>kv. fst kv @ '':'' @ snd kv)
                        (sort_key fst (map (map_prod id Sprint) kvs))) @ '']''"

text \<open>The escaper html/template puts on both actions of the list item.\<close>

definition htmlReplacement :: "char \<Rightarrow> string" where
  "htmlReplacement c =
     (if c = CHR 0x00 then [CHR 0xEF, CHR 0xBF, CHR 0xBD]
      else if c = quote then ''&#34;''
      else if c = CHR ''&'' then ''&amp;''
      else if c = CHR 0x27 then ''&#39;''
      else if c = CHR ''+'' then ''&#43;''
      else if c = CHR ''<'' then ''&lt;''
      else if c = CHR ''>'' then ''&gt;''
      else [c])"

definition htmlEscaper :: "string \<Rightarrow> string" where
  "htmlEscaper s = concat (map htmlReplacement s)"

definition nl :: string where
  "nl = [CHR 0x0A]"

definition tabs :: "nat \<Rightarrow> string" where
  "tabs n = replicate n (CHR 0x09)"

definition line :: "nat \<Rightarrow> string \<Rightarrow> string" where
  "line n s = tabs n @ s @ nl"

text \<open>The text of \<open>tmpl\<close> before the first \<open>range\<close>, between the two, and after the second.\<close>

definition tmpl_head :: string where
  "tmpl_head =
     nl @ line 1 ''<!DOCTYPE html>''
     @ line 1 ''<html>''
     @ line 1 ''<head>''
     @ line 2 ''<title>Request Parameters and Model Registry Data</title>''
     @ line 2 ''<style>''
     @ line 3 ''body { font-family: Arial, sans-serif; margin: 20px; }''
     @ line 3 ''h1 { color: #333; }''
     @ line 3 ''h2 { color: #444; }''
     @ line 3 ''ul { list-style-type: none; padding: 0; }''
     @ line 3 ''li { background: #f4f4f4; margin: 5px 0; padding: 10px; border-radius: 4px; }''
     @ line 3 ''strong { color: #555; }''
     @ line 2 ''</style>''
     @ line 1 ''</head>''
     @ line 1 ''<body>''
     @ line 2 ''<h1>Request Parameters and Authentication Details</h1>''
     @ line 2 ''<ul>''
     @ tabs 3"

definition tmpl_middle :: string where
  "tmpl_middle =
     nl @ line 2 ''</ul>''
     @ nl
     @ line 2 ''<h2>Model Registry Data</h2>''
     @ line 2 ''<ul>''
     @ tabs 3"

definition tmpl_foot :: string where
  "tmpl_foot =
     nl @ line 2 ''</ul>''
     @ line 1 ''</body>''
     @ line 1 ''</html>''
     @ tabs 1"

text \<open>The body of either \<open>range\<close>, for one key and its value.\<close>

definition item :: "string \<times> value \<Rightarrow> string" where
  "item kv =
     nl @ tabs 4 @ ''<li><strong>'' @ htmlEscaper (fst kv) @ '':</strong> ''
     @ htmlEscaper (Sprint (snd kv)) @ ''</li>'' @ nl @ tabs 3"

text \<open>\<open>range\<close> over a map visits its keys in increasing order; a nil map has none.\<close>

definition range_items :: "(string \<times> value) list option \<Rightarrow> string" where
  "range_items m =
     (case m of
        None \<Rightarrow> []
      | Some kvs \<Rightarrow> concat (map item (sort_key fst kvs)))"

record ParamsData =
  Params :: "(string \<times> value) list option"
  ModelRegistry :: "(string \<times> value) list option"

definition page :: "ParamsData \<Rightarrow> string" where
  "page data =
     tmpl_head @ range_items (Params data) @ tmpl_middle
     @ range_items (ModelRegistry data) @ tmpl_foot"

text \<open>
  \<open>t.Execute(w, data)\<close> for the template parsed from \<open>tmpl\<close>: parsing this text does not
  fail, and executing it fails only when the writer refuses the bytes, which it does from the
  first piece on.
\<close>

definition Execute :: "ResponseWriter \<Rightarrow> ParamsData \<Rightarrow> ResponseWriter \<times> go_error option" where
  "Execute w data = Write w (page data)"

subsection \<open>handleRequest\<close>

text \<open>
  A stretch of the handler either goes on with a value, or answers with \<open>http.Error\<close> and
  returns, or panics.
\<close>

datatype 'a step = Next 'a | Fail string int | Panic

fun bind :: "'a step \<Rightarrow> ('a \<Rightarrow> 'b step) \<Rightarrow> 'b step" where
  "bind (Next x) f = f x"
| "bind (Fail msg code) f = Fail msg code"
| "bind Panic f = Panic"

text \<open>\<open>params[k] = v\<close>: an assignment to an entry of a nil map panics.\<close>

fun assign :: "gomap option \<Rightarrow> string \<Rightarrow> value \<Rightarrow> gomap option step" where
  "assign None k v = Panic"
| "assign (Some m) k v = Next (Some (AList.update k v m))"

text \<open>Lines 40 to 70: \<open>params\<close> from the body of a POST or the form of a GET.\<close>

definition form_value :: "string list \<Rightarrow> value" where
  "form_value values = (if length values = 1 then VString (values ! 0) else VStrings values)"

definition read_params :: "Request \<Rightarrow> gomap option step" where
  "read_params r =
     (if Method r = MethodPost then
        (case Body r of
           Inl err \<Rightarrow> Fail ''Unable to read request body'' StatusBadRequest
         | Inr body \<Rightarrow>
             if length body > 0 then
               (case json_Unmarshal body None of
                  (Some err, params) \<Rightarrow> Fail ''Invalid JSON in request body'' StatusBadRequest
                | (None, params) \<Rightarrow> Next params)
             else Next (Some []))
      else if Method r = MethodGet then
        Next (Some (fold (\<lambda>kv. AList.update (fst kv) (form_value (snd kv))) (Form r) []))
      else Next None)"

text \<open>Lines 72 to 85: the \<open>oauth2_proxy_kubeflow\<close> cookie.\<close>

definition read_cookie :: "Request \<Rightarrow> gomap option \<Rightarrow> gomap option step" where
  "read_cookie r params =
     (case Cookie r ''oauth2_proxy_kubeflow'' of
        Inl err \<Rightarrow>
          if err = ErrNoCookie then assign params ''oauth2_proxy_kubeflow'' VNil
          else Fail ''Error reading cookies'' StatusBadRequest
      | Inr oauthCookie \<Rightarrow> assign params ''oauth2_proxy_kubeflow'' (VString (snd oauthCookie)))"

text \<open>Lines 87 to 93: the \<open>kubeflow-userid\<close> header.\<close>

definition read_userid :: "Request \<Rightarrow> gomap option \<Rightarrow> gomap option step" where
  "read_userid r params =
     (let kubeflowUserID = Header_Get (Header r) ''kubeflow-userid''
      in if kubeflowUserID = [] then Next params
         else assign params ''kubeflow-userid'' (VString kubeflowUserID))"

text \<open>Lines 95 to 101: the \<open>x-forwarded-access-token\<close> header.\<close>

definition read_token :: "Request \<Rightarrow> gomap option \<Rightarrow> gomap option step" where
  "read_token r params =
     (let xForwardedAccessToken = Header_Get (Header r) ''x-forwarded-access-token''
      in if xForwardedAccessToken = [] then Next params
         else assign params ''x-forwarded-access-token'' (VString xForwardedAccessToken))"

text \<open>Lines 40 to 101 together: \<open>params\<close> as it stands before the outbound call.\<close>

definition collect_params :: "Request \<Rightarrow> gomap option step" where
  "collect_params r =
     bind (read_params r) (\<lambda>p0.
     bind (read_cookie r p0) (\<lambda>p1.
     bind (read_userid r p1) (\<lambda>p2.
     read_token r p2)))"

definition modelRegistryURL :: string where
  "modelRegistryURL =
     ''http://model-registry-bff-service.kubeflow.svc.cluster.local:4000/api/v1/model_registry''"

text \<open>Lines 103 to 184: the outbound call and the page.\<close>

definition call_and_render :: "env \<Rightarrow> ResponseWriter \<Rightarrow> gomap option \<Rightarrow> ResponseWriter \<times> outcome" where
  "call_and_render e w params =
     (case http_Get e modelRegistryURL of
        Inl err \<Rightarrow> http_Error w ''Error calling model registry service'' StatusInternalServerError
      | Inr modelRegistryResp \<Rightarrow>
          if StatusCode modelRegistryResp \<noteq> StatusOK then
            http_Error w ''Model registry service error'' (StatusCode modelRegistryResp)
          else
            (case RespBody modelRegistryResp of
               Inl err \<Rightarrow>
                 http_Error w ''Error reading model registry response'' StatusInternalServerError
             | Inr modelRegistryBody \<Rightarrow>
                 (case json_Unmarshal modelRegistryBody None of
                    (Some err, modelRegistryData) \<Rightarrow>
                      http_Error w ''Invalid JSON from model registry service'' StatusBadRequest
                  | (None, modelRegistryData) \<Rightarrow>
                      (let data = \<lparr>Params = params, ModelRegistry = modelRegistryData\<rparr>;
                           w1 = set_header w ''Content-Type'' ''text/html; charset=utf-8''
                       in case Execute w1 data of
                            (w2, Some err) \<Rightarrow>
                              http_Error w2 ''Error executing template'' StatusInternalServerError
                          | (w2, None) \<Rightarrow> (w2, Returned)))))"

text \<open>
  What one call of the handler did: the state of its writer, whether it returned or panicked,
  and the URLs it called with \<open>http.Get\<close>.
\<close>

record Result =
  writer :: ResponseWriter
  outcome :: outcome
  calls :: "string list"

definition result :: "ResponseWriter \<times> outcome \<Rightarrow> string list \<Rightarrow> Result" where
  "result wo urls = \<lparr>writer = fst wo, outcome = snd wo, calls = urls\<rparr>"

definition handleRequest :: "env \<Rightarrow> Request \<Rightarrow> Result" where
  "handleRequest e r =
     (let w0 = set_header new_writer ''X-Frame-Options'' ''ALLOWALL'';
          w = set_header w0 ''Content-Security-Policy'' ''frame-ancestors *;''
      in if Method r \<noteq> MethodGet \<and> Method r \<noteq> MethodPost then
           result (http_Error w ''Method not allowed'' StatusMethodNotAllowed) []
         else
           (case collect_params r of
              Fail msg code \<Rightarrow> result (http_Error w msg code) []
            | Panic \<Rightarrow> result (w, Panicked) []
            | Next params \<Rightarrow> result (call_and_render e w params) [modelRegistryURL]))"

text \<open>The writer after the two \<open>Set\<close> calls of lines 32 and 33.\<close>

definition framed :: ResponseWriter where
  "framed =
     \<lparr>w_header = [(''X-Frame-Options'', [''ALLOWALL'']),
                 (''Content-Security-Policy'', [''frame-ancestors *;''])],
      w_informational = [], w_status = None, w_body = []\<rparr>"


subsection \<open>The words of the specification\<close>

text \<open>
  A body is a valid JSON object when it is JSON text whose value is an object and whose
  numbers are all in the range of a \<open>float64\<close>; it is the text of a JSON object when it
  is JSON text whose value is an object, whatever its numbers are.  It is the JSON literal
  \<open>null\<close> when it is JSON text whose value is \<open>null\<close>.
\<close>

definition valid_json_object :: "string \<Rightarrow> bool" where
  "valid_json_object b =
     (case checkValid b of
        Some (JObject kvs) \<Rightarrow> \<not> has_range_error (JObject kvs)
      | _ \<Rightarrow> False)"


definition is_json_null :: "string \<Rightarrow> bool" where
  "is_json_null b = (case checkValid b of Some JNull \<Rightarrow> True | _ \<Rightarrow> False)"

text \<open>
  The values a query string supplies for a key: the pieces between \<open>&\<close> that decode to
  a key and a value, in their order, and of those the values of the key.
\<close>

definition decode_pair :: "string \<Rightarrow> (string \<times> string) option" where
  "decode_pair piece =
     (if CHR '';'' \<in> set piece \<or> piece = [] then None
      else (case QueryUnescape (fst (Cut_eq piece)) of
              None \<Rightarrow> None
            | Some k \<Rightarrow>
                (case QueryUnescape (snd (Cut_eq piece)) of
                   None \<Rightarrow> None
                 | Some v \<Rightarrow> Some (k, v))))"

definition supplied_values :: "string \<Rightarrow> string \<Rightarrow> string list" where
  "supplied_values query key =
     map snd (filter (\<lambda>kv. fst kv = key) (List.map_filter decode_pair (split CHR ''&'' query)))"

text \<open>Two notions for the proofs about \<open>url.Values\<close>.\<close>

definition values_of :: "Values \<Rightarrow> string \<Rightarrow> string list" where
  "values_of m k = (case map_of m k of None \<Rightarrow> [] | Some vs \<Rightarrow> vs)"

definition no_empty :: "Values \<Rightarrow> bool" where
  "no_empty m \<longleftrightarrow> [] \<notin> snd ` set m"


subsection \<open>Example requests\<close>

text \<open>
  A POST whose body supplies the three keys the handler fills in itself, sent without the
  cookie, with the user header and without the token header.
\<close>

definition spoofing_body :: string where
  \<open>spoofing_body =
     ''{"oauth2_proxy_kubeflow":"forged","kubeflow-userid":"mallory","x-forwarded-access-token":"t0","n":1}''\<close>

definition spoofing_request :: Request where
  "spoofing_request =
     \<lparr>Method = ''POST'', RawQuery = [],
      Header = [(''Kubeflow-Userid'', [''alice''])],
      Cookies = [], Body = Inr spoofing_body\<rparr>"

text \<open>
  The same body sent with the cookie, twice, after another cookie, with the token header,
  twice, and without the user header.
\<close>

definition signed_in_request :: Request where
  "signed_in_request =
     \<lparr>Method = ''POST'', RawQuery = [],
      Header = [(''X-Forwarded-Access-Token'', [''tok'', ''tok2''])],
      Cookies = [(''session'', ''s1''), (''oauth2_proxy_kubeflow'', ''real''),
                 (''oauth2_proxy_kubeflow'', ''later'')],
      Body = Inr spoofing_body\<rparr>"







section \<open>Properties\<close>

subsection \<open>Auxiliary facts\<close>

lemma canonical_keys:
  "CanonicalMIMEHeaderKey ''X-Frame-Options'' = ''X-Frame-Options''"
  "CanonicalMIMEHeaderKey ''Content-Security-Policy'' = ''Content-Security-Policy''"
  "CanonicalMIMEHeaderKey ''Content-Type'' = ''Content-Type''"
  "CanonicalMIMEHeaderKey ''X-Content-Type-Options'' = ''X-Content-Type-Options''"
  "CanonicalMIMEHeaderKey ''kubeflow-userid'' = ''Kubeflow-Userid''"
  "CanonicalMIMEHeaderKey ''x-forwarded-access-token'' = ''X-Forwarded-Access-Token''"
  by code_simp+

lemma framed_eq:
  "set_header (set_header new_writer ''X-Frame-Options'' ''ALLOWALL'')
     ''Content-Security-Policy'' ''frame-ancestors *;'' = framed"
  by (simp add: set_header_def Header_Set_def canonical_keys new_writer_def framed_def)

lemma http_Error_fresh:
  "w_status w = None \<Longrightarrow> 200 \<le> code \<Longrightarrow> code \<le> 999 \<Longrightarrow>
   http_Error w msg code =
     (\<lparr>w_header = AList.update ''X-Content-Type-Options'' [''nosniff'']
                    (AList.update ''Content-Type'' [''text/plain; charset=utf-8''] (w_header w)),
       w_informational = w_informational w,
       w_status = Some code,
       w_body = (if code = 204 \<or> code = 304 then w_body w else w_body w @ msg @ nl)\<rparr>,
      Returned)"
  by (simp add: http_Error_def set_header_def Header_Set_def canonical_keys WriteHeader_def
      Write_def bodyAllowedForStatus_def nl_def Let_def)

lemma http_Error_invalid_code:
  "w_status w = None \<Longrightarrow> code < 100 \<or> 999 < code \<Longrightarrow>
   http_Error w msg code =
     (\<lparr>w_header = AList.update ''X-Content-Type-Options'' [''nosniff'']
                    (AList.update ''Content-Type'' [''text/plain; charset=utf-8''] (w_header w)),
       w_informational = w_informational w,
       w_status = None,
       w_body = w_body w\<rparr>,
      Panicked)"
  by (auto simp: http_Error_def set_header_def Header_Set_def canonical_keys WriteHeader_def
      Let_def)

lemma WriteHeader_header: "WriteHeader w code = Some w' \<Longrightarrow> w_header w' = w_header w"
  by (auto simp: WriteHeader_def split: option.splits if_splits)

lemma Write_header: "w_header (fst (Write w bs)) = w_header w"
  by (simp add: Write_def Let_def)

lemma http_Error_header:
  "map_of (w_header (fst (http_Error w msg code))) k =
     (if k = ''X-Content-Type-Options'' then Some [''nosniff'']
      else if k = ''Content-Type'' then Some [''text/plain; charset=utf-8'']
      else map_of (w_header w) k)"
proof (cases "WriteHeader
    (set_header (set_header w ''Content-Type'' ''text/plain; charset=utf-8'')
       ''X-Content-Type-Options'' ''nosniff'') code")
  case None
  then show ?thesis
    by (simp add: http_Error_def Let_def set_header_def Header_Set_def canonical_keys
        update_conv')
next
  case (Some w3)
  from WriteHeader_header[OF Some] Some show ?thesis
    by (simp add: http_Error_def Let_def Write_header set_header_def Header_Set_def
        canonical_keys update_conv')
qed

lemma call_and_render_header:
  assumes "k \<noteq> ''X-Content-Type-Options''" and "k \<noteq> ''Content-Type''"
  shows "map_of (w_header (fst (call_and_render e w params))) k = map_of (w_header w) k"
proof -
  have x: "map_of (w_header (fst (http_Error w' msg code))) k = map_of (w_header w') k"
    for w' msg code
    using assms by (simp add: http_Error_header)
  have y: "map_of (w_header (set_header w ''Content-Type'' v)) k = map_of (w_header w) k" for v
    using assms by (simp add: set_header_def Header_Set_def canonical_keys update_conv')
  have z: "Write w' bs = (w2, err) \<Longrightarrow> w_header w2 = w_header w'" for w' bs w2 err
    using Write_header[of w' bs] by simp
  show ?thesis
    unfolding call_and_render_def
    by (auto simp: x y Execute_def Let_def dest!: z
        split: sum.splits option.splits prod.splits)
qed

lemma handleRequest_eq:
  "handleRequest e r =
     (if Method r \<noteq> MethodGet \<and> Method r \<noteq> MethodPost then
        result (http_Error framed ''Method not allowed'' StatusMethodNotAllowed) []
      else
        (case collect_params r of
           Fail msg code \<Rightarrow> result (http_Error framed msg code) []
         | Panic \<Rightarrow> result (framed, Panicked) []
         | Next params \<Rightarrow> result (call_and_render e framed params) [modelRegistryURL]))"
  unfolding handleRequest_def Let_def framed_eq by simp

lemma result_simps:
  "writer (result wo urls) = fst wo"
  "outcome (result wo urls) = snd wo"
  "calls (result wo urls) = urls"
  by (simp_all add: result_def)

subsection \<open>The method guard and the frame headers\<close>

text \<open>
  Claim C9.  A request whose method is neither GET nor POST is answered with status 405 and
  nothing else happens: the whole result is the one below, whatever the query, the headers,
  the cookies, the body and the model registry are, and no outbound call is made.
\<close>

theorem other_methods_405:
  "Method r \<noteq> MethodGet \<Longrightarrow> Method r \<noteq> MethodPost \<Longrightarrow>
   handleRequest e r =
     \<lparr>writer =
        \<lparr>w_header = [(''X-Frame-Options'', [''ALLOWALL'']),
                    (''Content-Security-Policy'', [''frame-ancestors *;'']),
                    (''Content-Type'', [''text/plain; charset=utf-8'']),
                    (''X-Content-Type-Options'', [''nosniff''])],
         w_informational = [],
         w_status = Some 405,
         w_body = ''Method not allowed'' @ nl\<rparr>,
      outcome = Returned, calls = []\<rparr>"
  by (simp add: handleRequest_eq http_Error_fresh framed_def StatusMethodNotAllowed_def
      result_def)

theorem other_methods_405_witness:
  "handleRequest
     \<lparr>http_Get = (\<lambda>url. Inl (ErrOther ''unreachable''))\<rparr>
     \<lparr>Method = ''PUT'', RawQuery = ''a=1'', Header = [],
      Cookies = [(''oauth2_proxy_kubeflow'', ''abc'')], Body = Inr ''{}''\<rparr> =
     \<lparr>writer =
        \<lparr>w_header = [(''X-Frame-Options'', [''ALLOWALL'']),
                    (''Content-Security-Policy'', [''frame-ancestors *;'']),
                    (''Content-Type'', [''text/plain; charset=utf-8'']),
                    (''X-Content-Type-Options'', [''nosniff''])],
         w_informational = [],
         w_status = Some 405,
         w_body = ''Method not allowed'' @ nl\<rparr>,
      outcome = Returned, calls = []\<rparr>"
  by (rule other_methods_405) (simp_all add: MethodGet_def MethodPost_def)

text \<open>
  Claim C10.  On every path through the handler, for every request and every answer of the
  model registry, the header map of the response writer holds \<open>X-Frame-Options: ALLOWALL\<close>
  and \<open>Content-Security-Policy: frame-ancestors *;\<close>.
\<close>

theorem frame_headers_always:
  "map_of (w_header (writer (handleRequest e r))) ''X-Frame-Options'' = Some [''ALLOWALL''] \<and>
   map_of (w_header (writer (handleRequest e r))) ''Content-Security-Policy'' =
     Some [''frame-ancestors *;'']"
  by (simp add: handleRequest_eq result_simps http_Error_header call_and_render_header
      framed_def split: step.splits)

subsection \<open>What json.Unmarshal accepts\<close>

lemma Unmarshal_rejects:
  "\<not> valid_json_object b \<Longrightarrow> \<not> is_json_null b \<Longrightarrow> \<exists>err m'. json_Unmarshal b m = (Some err, m')"
  by (auto simp: valid_json_object_def is_json_null_def json_Unmarshal_def
      split: option.splits json.splits)

lemma Unmarshal_null:
  "is_json_null b \<Longrightarrow> json_Unmarshal b m = (None, None)"
  by (auto simp: is_json_null_def json_Unmarshal_def split: option.splits json.splits)

lemma calls_made:
  "calls (handleRequest e r) \<noteq> [] \<longleftrightarrow>
     (Method r = MethodGet \<or> Method r = MethodPost) \<and> (\<exists>params. collect_params r = Next params)"
  by (auto simp: handleRequest_eq result_simps split: step.splits)

lemma handleRequest_called:
  "calls (handleRequest e r) \<noteq> [] \<Longrightarrow>
   \<exists>params. handleRequest e r = result (call_and_render e framed params) [modelRegistryURL]"
  by (auto simp: handleRequest_eq result_simps split: step.splits if_splits)

lemma get_request_collects:
  "collect_params \<lparr>Method = ''GET'', RawQuery = [], Header = [], Cookies = [], Body = Inr []\<rparr>
     = Next (Some [(''oauth2_proxy_kubeflow'', VNil)])"
  by code_simp

lemma get_request_result:
  "calls (handleRequest e \<lparr>Method = ''GET'', RawQuery = [], Header = [], Cookies = [], Body = Inr []\<rparr>) \<noteq> []"
  by (simp add: calls_made MethodGet_def get_request_collects)

lemma null_is_not_an_object: "\<not> valid_json_object ''null''" "is_json_null ''null''"
  by code_simp+

lemma array_is_not_an_object: "\<not> valid_json_object ''[1]''" "\<not> is_json_null ''[1]''"
  by code_simp+

subsection \<open>The model registry answers with another status\<close>

lemma relayed_status:
  assumes "calls (handleRequest e r) \<noteq> []"
    and "http_Get e modelRegistryURL = Inr resp"
    and "StatusCode resp \<noteq> 200"
  shows "handleRequest e r =
     result (http_Error framed ''Model registry service error'' (StatusCode resp))
       [modelRegistryURL]"
proof -
  from assms(1) obtain params where
    h: "handleRequest e r = result (call_and_render e framed params) [modelRegistryURL]"
    using handleRequest_called by blast
  from assms(2,3) have
    "call_and_render e framed params =
       http_Error framed ''Model registry service error'' (StatusCode resp)"
    by (simp add: call_and_render_def StatusOK_def)
  with h show ?thesis by simp
qed

text \<open>
  Claim C4 as stated fails.  A status of 204 is relayed, but the writer refuses the message
  for it, so the body stays empty.  A status line \<open>099\<close> gives the status code 99, for
  which \<open>WriteHeader\<close> panics, so no status is written at all.
\<close>

theorem upstream_status_counterexample:
  "calls (handleRequest
      \<lparr>http_Get = (\<lambda>url. Inr \<lparr>StatusCode = 204, RespBody = Inr []\<rparr>)\<rparr>
      \<lparr>Method = ''GET'', RawQuery = [], Header = [], Cookies = [], Body = Inr []\<rparr>) \<noteq> []
   \<and> w_status (writer (handleRequest
      \<lparr>http_Get = (\<lambda>url. Inr \<lparr>StatusCode = 204, RespBody = Inr []\<rparr>)\<rparr>
      \<lparr>Method = ''GET'', RawQuery = [], Header = [], Cookies = [], Body = Inr []\<rparr>)) = Some 204
   \<and> w_body (writer (handleRequest
      \<lparr>http_Get = (\<lambda>url. Inr \<lparr>StatusCode = 204, RespBody = Inr []\<rparr>)\<rparr>
      \<lparr>Method = ''GET'', RawQuery = [], Header = [], Cookies = [], Body = Inr []\<rparr>)) = []
   \<and> calls (handleRequest
      \<lparr>http_Get = (\<lambda>url. Inr \<lparr>StatusCode = 99, RespBody = Inr []\<rparr>)\<rparr>
      \<lparr>Method = ''GET'', RawQuery = [], Header = [], Cookies = [], Body = Inr []\<rparr>) \<noteq> []
   \<and> w_status (writer (handleRequest
      \<lparr>http_Get = (\<lambda>url. Inr \<lparr>StatusCode = 99, RespBody = Inr []\<rparr>)\<rparr>
      \<lparr>Method = ''GET'', RawQuery = [], Header = [], Cookies = [], Body = Inr []\<rparr>)) = None
   \<and> outcome (handleRequest
      \<lparr>http_Get = (\<lambda>url. Inr \<lparr>StatusCode = 99, RespBody = Inr []\<rparr>)\<rparr>
      \<lparr>Method = ''GET'', RawQuery = [], Header = [], Cookies = [], Body = Inr []\<rparr>) = Panicked"
proof -
  let ?r = "\<lparr>Method = ''GET'', RawQuery = [], Header = [], Cookies = [], Body = Inr []\<rparr>"
  let ?e = "\<lambda>code. \<lparr>http_Get = (\<lambda>url. Inr \<lparr>StatusCode = code, RespBody = Inr []\<rparr>)\<rparr>"
  have a: "handleRequest (?e 204) ?r =
      result (http_Error framed ''Model registry service error'' 204) [modelRegistryURL]"
    using relayed_status[of "?e 204" ?r "\<lparr>StatusCode = 204, RespBody = Inr []\<rparr>"]
    by (simp add: get_request_result)
  have b: "handleRequest (?e 99) ?r =
      result (http_Error framed ''Model registry service error'' 99) [modelRegistryURL]"
    using relayed_status[of "?e 99" ?r "\<lparr>StatusCode = 99, RespBody = Inr []\<rparr>"]
    by (simp add: get_request_result)
  show ?thesis
    unfolding a b
    by (simp add: result_simps http_Error_fresh http_Error_invalid_code framed_def)
qed

text \<open>
  Claim C4, amended.  When the handler has made its outbound call and the model registry
  answers with a status other than 200 from 201 to 999, the handler answers with that same
  status, and with the message \<open>Model registry service error\<close> (ended by a newline) unless
  the status is 204 or 304, for which the response has no body.  The witness is the status
  503, answered with 503 and the message.
\<close>

theorem upstream_status_relayed:
  assumes "calls (handleRequest e r) \<noteq> []"
    and "http_Get e modelRegistryURL = Inr resp"
    and "StatusCode resp \<noteq> 200"
    and "200 \<le> StatusCode resp"
    and "StatusCode resp \<le> 999"
  shows "w_status (writer (handleRequest e r)) = Some (StatusCode resp)
       \<and> w_body (writer (handleRequest e r)) =
           (if StatusCode resp = 204 \<or> StatusCode resp = 304 then []
            else ''Model registry service error'' @ nl)
       \<and> outcome (handleRequest e r) = Returned"
  using relayed_status[OF assms(1,2,3)] assms(4,5)
  by (simp add: result_simps http_Error_fresh framed_def)

theorem upstream_status_relayed_witness:
  "w_status (writer (handleRequest
      \<lparr>http_Get = (\<lambda>url. Inr \<lparr>StatusCode = 503, RespBody = Inr ''unavailable''\<rparr>)\<rparr>
      \<lparr>Method = ''GET'', RawQuery = [], Header = [], Cookies = [], Body = Inr []\<rparr>)) = Some 503
   \<and> w_body (writer (handleRequest
      \<lparr>http_Get = (\<lambda>url. Inr \<lparr>StatusCode = 503, RespBody = Inr ''unavailable''\<rparr>)\<rparr>
      \<lparr>Method = ''GET'', RawQuery = [], Header = [], Cookies = [], Body = Inr []\<rparr>))
     = ''Model registry service error'' @ nl
   \<and> outcome (handleRequest
      \<lparr>http_Get = (\<lambda>url. Inr \<lparr>StatusCode = 503, RespBody = Inr ''unavailable''\<rparr>)\<rparr>
      \<lparr>Method = ''GET'', RawQuery = [], Header = [], Cookies = [], Body = Inr []\<rparr>) = Returned"
  using upstream_status_relayed
    [of "\<lparr>http_Get = (\<lambda>url. Inr \<lparr>StatusCode = 503, RespBody = Inr ''unavailable''\<rparr>)\<rparr>"
        "\<lparr>Method = ''GET'', RawQuery = [], Header = [], Cookies = [], Body = Inr []\<rparr>"
        "\<lparr>StatusCode = 503, RespBody = Inr ''unavailable''\<rparr>"]
  by (simp add: get_request_result)

subsection \<open>The model registry answers with something that is not an object\<close>

text \<open>
  Claim C2 as stated fails: the body \<open>null\<close> is not a JSON object, yet
  \<open>json.Unmarshal\<close> reports no error for it and leaves the map nil, and the handler
  answers 200 with a page whose second list is empty.
\<close>

theorem upstream_null_counterexample:
  "calls (handleRequest
      \<lparr>http_Get = (\<lambda>url. Inr \<lparr>StatusCode = 200, RespBody = Inr ''null''\<rparr>)\<rparr>
      \<lparr>Method = ''GET'', RawQuery = [], Header = [], Cookies = [], Body = Inr []\<rparr>) \<noteq> []
   \<and> \<not> valid_json_object ''null''
   \<and> w_status (writer (handleRequest
      \<lparr>http_Get = (\<lambda>url. Inr \<lparr>StatusCode = 200, RespBody = Inr ''null''\<rparr>)\<rparr>
      \<lparr>Method = ''GET'', RawQuery = [], Header = [], Cookies = [], Body = Inr []\<rparr>)) = Some 200
   \<and> map_of (w_header (writer (handleRequest
      \<lparr>http_Get = (\<lambda>url. Inr \<lparr>StatusCode = 200, RespBody = Inr ''null''\<rparr>)\<rparr>
      \<lparr>Method = ''GET'', RawQuery = [], Header = [], Cookies = [], Body = Inr []\<rparr>))) ''Content-Type''
       = Some [''text/html; charset=utf-8'']"
proof -
  let ?e = "\<lparr>http_Get = (\<lambda>url. Inr \<lparr>StatusCode = 200, RespBody = Inr ''null''\<rparr>)\<rparr>"
  let ?r = "\<lparr>Method = ''GET'', RawQuery = [], Header = [], Cookies = [], Body = Inr []\<rparr>"
  have h: "handleRequest ?e ?r =
     result (call_and_render ?e framed (Some [(''oauth2_proxy_kubeflow'', VNil)]))
       [modelRegistryURL]"
    by (simp add: handleRequest_eq MethodGet_def get_request_collects)
  have c: "call_and_render ?e framed (Some [(''oauth2_proxy_kubeflow'', VNil)]) =
     (fst (Write (set_header framed ''Content-Type'' ''text/html; charset=utf-8'')
        (page \<lparr>Params = Some [(''oauth2_proxy_kubeflow'', VNil)], ModelRegistry = None\<rparr>)),
      Returned)"
    by (simp add: call_and_render_def StatusOK_def Unmarshal_null null_is_not_an_object
        Execute_def Write_def bodyAllowedForStatus_def set_header_def framed_def Let_def)
  show ?thesis
    unfolding h c
    by (simp add: result_simps null_is_not_an_object Write_def set_header_def
        Header_Set_def canonical_keys framed_def Let_def)
qed

text \<open>
  Claim C2, amended.  When the handler has made its outbound call, the model registry answers
  with status 200 and its body is neither a valid JSON object nor the JSON literal
  \<open>null\<close>, the handler answers with status 400 and the message
  \<open>Invalid JSON from model registry service\<close>.
\<close>

theorem upstream_not_json_400:
  assumes "calls (handleRequest e r) \<noteq> []"
    and "http_Get e modelRegistryURL = Inr resp"
    and "StatusCode resp = 200"
    and "RespBody resp = Inr body"
    and "\<not> valid_json_object body"
    and "\<not> is_json_null body"
  shows "w_status (writer (handleRequest e r)) = Some 400
       \<and> w_body (writer (handleRequest e r)) = ''Invalid JSON from model registry service'' @ nl
       \<and> outcome (handleRequest e r) = Returned"
proof -
  from assms(1) obtain params where
    h: "handleRequest e r = result (call_and_render e framed params) [modelRegistryURL]"
    using handleRequest_called by blast
  from assms(5,6) obtain err m' where "json_Unmarshal body None = (Some err, m')"
    using Unmarshal_rejects by blast
  with assms(2,3,4) have
    "call_and_render e framed params =
       http_Error framed ''Invalid JSON from model registry service'' StatusBadRequest"
    by (simp add: call_and_render_def StatusOK_def)
  with h show ?thesis
    by (simp add: result_simps http_Error_fresh framed_def StatusBadRequest_def)
qed

theorem upstream_not_json_400_witness:
  "w_status (writer (handleRequest
      \<lparr>http_Get = (\<lambda>url. Inr \<lparr>StatusCode = 200, RespBody = Inr ''[1]''\<rparr>)\<rparr>
      \<lparr>Method = ''GET'', RawQuery = [], Header = [], Cookies = [], Body = Inr []\<rparr>)) = Some 400
   \<and> w_body (writer (handleRequest
      \<lparr>http_Get = (\<lambda>url. Inr \<lparr>StatusCode = 200, RespBody = Inr ''[1]''\<rparr>)\<rparr>
      \<lparr>Method = ''GET'', RawQuery = [], Header = [], Cookies = [], Body = Inr []\<rparr>))
     = ''Invalid JSON from model registry service'' @ nl"
  using upstream_not_json_400
    [of "\<lparr>http_Get = (\<lambda>url. Inr \<lparr>StatusCode = 200, RespBody = Inr ''[1]''\<rparr>)\<rparr>"
        "\<lparr>Method = ''GET'', RawQuery = [], Header = [], Cookies = [], Body = Inr []\<rparr>"
        "\<lparr>StatusCode = 200, RespBody = Inr ''[1]''\<rparr>" "''[1]''"]
  by (simp add: get_request_result array_is_not_an_object)

subsection \<open>A POST whose body is null\<close>

lemma post_null_read_params:
  "read_params \<lparr>Method = ''POST'', RawQuery = q, Header = h, Cookies = cs, Body = Inr ''null''\<rparr>
     = Next None"
  by (simp add: read_params_def MethodPost_def Unmarshal_null null_is_not_an_object)

lemma Cookie_not_other: "Cookie r name = Inl err \<Longrightarrow> err = ErrNoCookie"
  by (auto simp: Cookie_def split: list.splits)

lemma read_cookie_nil_panics: "read_cookie r None = Panic"
  by (auto simp: read_cookie_def split: sum.splits dest: Cookie_not_other)

lemma post_null_collect:
  "collect_params \<lparr>Method = ''POST'', RawQuery = q, Header = h, Cookies = cs, Body = Inr ''null''\<rparr>
     = Panic"
  by (simp add: collect_params_def post_null_read_params read_cookie_nil_panics)

text \<open>
  Claim C1 as stated fails: the body \<open>null\<close> is not empty and is not a valid JSON
  object, yet the handler does not answer it with status 400.  \<open>json.Unmarshal\<close> reports
  no error for it; the handler goes on, writes no status and no body, and makes no outbound
  call.
\<close>

theorem post_null_body_counterexample:
  "0 < length ''null'' \<and> \<not> valid_json_object ''null''
   \<and> handleRequest
       \<lparr>http_Get = (\<lambda>url. Inr \<lparr>StatusCode = 200, RespBody = Inr ''{}''\<rparr>)\<rparr>
       \<lparr>Method = ''POST'', RawQuery = [], Header = [], Cookies = [], Body = Inr ''null''\<rparr>
     = \<lparr>writer =
          \<lparr>w_header = [(''X-Frame-Options'', [''ALLOWALL'']),
                      (''Content-Security-Policy'', [''frame-ancestors *;''])],
           w_informational = [], w_status = None, w_body = []\<rparr>,
        outcome = Panicked, calls = []\<rparr>"
  by (simp add: null_is_not_an_object handleRequest_eq MethodPost_def MethodGet_def
      post_null_collect framed_def result_def)

text \<open>
  Claim C1, amended.  A POST request whose body is read, is not empty and is neither a valid
  JSON object nor the JSON literal \<open>null\<close> is answered with status 400 and the message
  \<open>Invalid JSON in request body\<close>, and no outbound call is made.
\<close>

theorem post_not_json_400:
  assumes "Method r = MethodPost" and "Body r = Inr body" and "0 < length body"
    and "\<not> valid_json_object body" and "\<not> is_json_null body"
  shows "handleRequest e r =
     \<lparr>writer =
        \<lparr>w_header = [(''X-Frame-Options'', [''ALLOWALL'']),
                    (''Content-Security-Policy'', [''frame-ancestors *;'']),
                    (''Content-Type'', [''text/plain; charset=utf-8'']),
                    (''X-Content-Type-Options'', [''nosniff''])],
         w_informational = [],
         w_status = Some 400,
         w_body = ''Invalid JSON in request body'' @ nl\<rparr>,
      outcome = Returned, calls = []\<rparr>"
proof -
  from assms(4,5) obtain err m' where "json_Unmarshal body None = (Some err, m')"
    using Unmarshal_rejects by blast
  with assms(1,2,3) have "read_params r = Fail ''Invalid JSON in request body'' StatusBadRequest"
    by (simp add: read_params_def)
  then have "collect_params r = Fail ''Invalid JSON in request body'' StatusBadRequest"
    by (simp add: collect_params_def)
  with assms(1) show ?thesis
    by (simp add: handleRequest_eq http_Error_fresh framed_def StatusBadRequest_def
        result_def)
qed

theorem post_not_json_400_witness:
  "handleRequest
     \<lparr>http_Get = (\<lambda>url. Inr \<lparr>StatusCode = 200, RespBody = Inr ''{}''\<rparr>)\<rparr>
     \<lparr>Method = ''POST'', RawQuery = [], Header = [], Cookies = [], Body = Inr ''[1]''\<rparr> =
     \<lparr>writer =
        \<lparr>w_header = [(''X-Frame-Options'', [''ALLOWALL'']),
                    (''Content-Security-Policy'', [''frame-ancestors *;'']),
                    (''Content-Type'', [''text/plain; charset=utf-8'']),
                    (''X-Content-Type-Options'', [''nosniff''])],
         w_informational = [],
         w_status = Some 400,
         w_body = ''Invalid JSON in request body'' @ nl\<rparr>,
      outcome = Returned, calls = []\<rparr>"
  by (rule post_not_json_400[where body = "''[1]''"])
    (simp_all add: MethodPost_def array_is_not_an_object)

text \<open>
  Claim C3 says that \<open>params\<close> is never nil where the cookie value is stored.  For the
  body \<open>null\<close>, \<open>json.Unmarshal\<close> returns no error and \<open>params\<close> stays nil; the
  assignment of line 84 panics and the handler produces no response.
\<close>

theorem post_null_params_nil:
  "json_Unmarshal ''null'' None = (None, None)
   \<and> read_params \<lparr>Method = ''POST'', RawQuery = [], Header = [],
        Cookies = [(''oauth2_proxy_kubeflow'', ''token'')], Body = Inr ''null''\<rparr> = Next None
   \<and> assign None ''oauth2_proxy_kubeflow'' (VString ''token'') = Panic
   \<and> outcome (handleRequest e \<lparr>Method = ''POST'', RawQuery = [], Header = [],
        Cookies = [(''oauth2_proxy_kubeflow'', ''token'')], Body = Inr ''null''\<rparr>) = Panicked
   \<and> w_status (writer (handleRequest e \<lparr>Method = ''POST'', RawQuery = [], Header = [],
        Cookies = [(''oauth2_proxy_kubeflow'', ''token'')], Body = Inr ''null''\<rparr>)) = None"
  by (simp add: Unmarshal_null null_is_not_an_object post_null_read_params handleRequest_eq
      MethodPost_def MethodGet_def post_null_collect framed_def result_def)

text \<open>
  Claim C6 says that after the cookie is read \<open>params\<close> always holds the key
  \<open>oauth2_proxy_kubeflow\<close>.  A POST with the body \<open>null\<close> reaches the cookie with a
  nil \<open>params\<close>; with or without the cookie the assignment panics and no \<open>params\<close>
  holding the key exists.
\<close>

theorem cookie_key_missing_on_nil_params:
  "read_params \<lparr>Method = ''POST'', RawQuery = [], Header = [], Cookies = [], Body = Inr ''null''\<rparr>
     = Next None
   \<and> read_cookie \<lparr>Method = ''POST'', RawQuery = [], Header = [], Cookies = [], Body = Inr ''null''\<rparr> None
     = Panic
   \<and> read_cookie \<lparr>Method = ''POST'', RawQuery = [], Header = [],
        Cookies = [(''oauth2_proxy_kubeflow'', ''token'')], Body = Inr ''null''\<rparr> None
     = Panic
   \<and> collect_params \<lparr>Method = ''POST'', RawQuery = [], Header = [], Cookies = [], Body = Inr ''null''\<rparr>
     = Panic"
  by (simp add: post_null_read_params read_cookie_nil_panics post_null_collect)

subsection \<open>The parameters of a GET request\<close>

lemma parse_pair_decode:
  "parse_pair p m = (case decode_pair p of None \<Rightarrow> m | Some kv \<Rightarrow> Values_append (fst kv) (snd kv) m)"
  by (simp add: parse_pair_def decode_pair_def split: option.splits)

lemma values_of_append:
  "values_of (Values_append k v m) k' = (if k' = k then values_of m k @ [v] else values_of m k')"
  by (simp add: values_of_def Values_append_def update_conv')

lemma values_of_parse_pair:
  "values_of (parse_pair p m) k =
     values_of m k @ map snd (filter (\<lambda>kv. fst kv = k) (List.map_filter decode_pair [p]))"
  by (simp add: parse_pair_decode values_of_append List.map_filter_simps split: option.splits)

lemma values_of_fold:
  "values_of (fold parse_pair ps m) k =
     values_of m k @ map snd (filter (\<lambda>kv. fst kv = k) (List.map_filter decode_pair ps))"
proof (induction ps arbitrary: m)
  case Nil
  show ?case by (simp add: List.map_filter_simps)
next
  case (Cons p ps)
  show ?case
    by (simp add: Cons.IH values_of_parse_pair List.map_filter_simps split: option.splits)
qed

lemma set_update_subset: "set (AList.update k v m) \<subseteq> insert (k, v) (set m)"
  by (induction m) auto

lemma no_empty_parse_pair: "no_empty m \<Longrightarrow> no_empty (parse_pair p m)"
proof -
  assume a: "no_empty m"
  have "no_empty (Values_append k v m)" for k v
    using a set_update_subset[of k "values_of m k @ [v]" m]
    by (fastforce simp: no_empty_def Values_append_def values_of_def)
  then show ?thesis
    by (simp add: parse_pair_decode a split: option.splits)
qed

lemma no_empty_fold: "no_empty m \<Longrightarrow> no_empty (fold parse_pair ps m)"
  by (induction ps arbitrary: m) (simp_all add: no_empty_parse_pair)

lemma distinct_parse_pair: "distinct (map fst m) \<Longrightarrow> distinct (map fst (parse_pair p m))"
  by (simp add: parse_pair_decode Values_append_def distinct_update split: option.splits)

lemma distinct_fold: "distinct (map fst m) \<Longrightarrow> distinct (map fst (fold parse_pair ps m))"
  by (induction ps arbitrary: m) (simp_all add: distinct_parse_pair)

lemma distinct_ParseQuery: "distinct (map fst (ParseQuery q))"
  by (simp add: ParseQuery_def distinct_fold)

lemma map_of_ParseQuery:
  "map_of (ParseQuery q) k =
     (if supplied_values q k = [] then None else Some (supplied_values q k))"
proof -
  have v: "values_of (ParseQuery q) k = supplied_values q k"
    using values_of_fold[of "split CHR ''&'' q" "[]" k]
    by (simp add: ParseQuery_def supplied_values_def values_of_def)
  have "no_empty (ParseQuery q)"
    using no_empty_fold[of "[]" "split CHR ''&'' q"] by (simp add: ParseQuery_def no_empty_def)
  then have "map_of (ParseQuery q) k \<noteq> Some []"
    by (auto simp: no_empty_def dest!: map_of_SomeD) (metis snd_conv image_eqI)
  with v show ?thesis
    by (auto simp: values_of_def split: option.splits)
qed

lemma map_of_fold_update:
  "distinct (map fst al) \<Longrightarrow>
   map_of (fold (\<lambda>kv. AList.update (fst kv) (f (snd kv))) al m0) k =
     (case map_of al k of Some v \<Rightarrow> Some (f v) | None \<Rightarrow> map_of m0 k)"
proof (induction al arbitrary: m0)
  case Nil
  show ?case by simp
next
  case (Cons x xs)
  then have d: "distinct (map fst xs)" and n: "fst x \<notin> fst ` set xs" by auto
  from n have "map_of xs (fst x) = None" by (simp add: map_of_eq_None_iff)
  with Cons.IH[OF d] show ?case
    by (cases x) (auto simp: update_conv' split: option.splits)
qed

text \<open>
  Claim C5.  For a GET request \<open>params\<close> is, after lines 60 to 70, a map in which a key
  with exactly one supplied value holds that string, a key with several supplied values holds
  the list of them in their order, and a key with none is absent.  The witness is the query
  string \<open>a=1&a=2&b=3\<close>.
\<close>

theorem get_params_from_query:
  assumes "Method r = MethodGet"
  shows "\<exists>m. read_params r = Next (Some m) \<and>
           (\<forall>key. map_of m key =
              (if supplied_values (RawQuery r) key = [] then None
               else if length (supplied_values (RawQuery r) key) = 1
                 then Some (VString (hd (supplied_values (RawQuery r) key)))
               else Some (VStrings (supplied_values (RawQuery r) key))))"
proof -
  let ?m = "fold (\<lambda>kv. AList.update (fst kv) (form_value (snd kv))) (Form r) []"
  from assms have "read_params r = Next (Some ?m)"
    by (simp add: read_params_def MethodGet_def MethodPost_def)
  moreover have "map_of ?m key =
      (if supplied_values (RawQuery r) key = [] then None
       else if length (supplied_values (RawQuery r) key) = 1
         then Some (VString (hd (supplied_values (RawQuery r) key)))
       else Some (VStrings (supplied_values (RawQuery r) key)))" for key
  proof -
    have "map_of ?m key =
        (case map_of (Form r) key of Some v \<Rightarrow> Some (form_value v) | None \<Rightarrow> None)"
      using map_of_fold_update[of "Form r" form_value "[]" key]
      by (simp add: Form_def distinct_ParseQuery split: option.splits)
    then show ?thesis
      by (simp add: Form_def map_of_ParseQuery form_value_def hd_conv_nth)
  qed
  ultimately show ?thesis by blast
qed

lemma supplied_example:
  "supplied_values ''a=1&a=2&b=3'' ''a'' = [''1'', ''2'']"
  "supplied_values ''a=1&a=2&b=3'' ''b'' = [''3'']"
  "supplied_values ''a=1&a=2&b=3'' ''c'' = []"
  by code_simp+

theorem get_params_from_query_witness:
  "\<exists>m. read_params \<lparr>Method = ''GET'', RawQuery = ''a=1&a=2&b=3'', Header = [], Cookies = [],
                    Body = Inr []\<rparr> = Next (Some m)
     \<and> map_of m ''a'' = Some (VStrings [''1'', ''2''])
     \<and> map_of m ''b'' = Some (VString ''3'')
     \<and> map_of m ''c'' = None"
  using get_params_from_query
    [of "\<lparr>Method = ''GET'', RawQuery = ''a=1&a=2&b=3'', Header = [], Cookies = [], Body = Inr []\<rparr>"]
  by (auto simp: MethodGet_def supplied_example)

subsection \<open>The values the handler fills in\<close>

lemma first_cookie:
  "(case filter (\<lambda>c. fst c = name) cs of c # _ \<Rightarrow> Inr c | [] \<Rightarrow> Inl ErrNoCookie) =
     (case map_of cs name of None \<Rightarrow> Inl ErrNoCookie | Some v \<Rightarrow> Inr (name, v))"
  by (induction cs) auto

lemma Cookie_map_of:
  "Cookie r name =
     (case map_of (Cookies r) name of None \<Rightarrow> Inl ErrNoCookie | Some v \<Rightarrow> Inr (name, v))"
  unfolding Cookie_def by (rule first_cookie)

lemma read_cookie_Some:
  "read_cookie r (Some m) =
     Next (Some (AList.update ''oauth2_proxy_kubeflow''
                   (case map_of (Cookies r) ''oauth2_proxy_kubeflow'' of
                      None \<Rightarrow> VNil
                    | Some v \<Rightarrow> VString v) m))"
  by (simp add: read_cookie_def Cookie_map_of split: option.splits)

lemma Header_Get_keys:
  "Header_Get h ''kubeflow-userid'' =
     (case map_of h ''Kubeflow-Userid'' of Some (v # vs) \<Rightarrow> v | _ \<Rightarrow> [])"
  "Header_Get h ''x-forwarded-access-token'' =
     (case map_of h ''X-Forwarded-Access-Token'' of Some (v # vs) \<Rightarrow> v | _ \<Rightarrow> [])"
  by (simp_all add: Header_Get_def canonical_keys)

lemma read_userid_Some:
  "read_userid r (Some m) =
     Next (Some (if Header_Get (Header r) ''kubeflow-userid'' = [] then m
                 else AList.update ''kubeflow-userid''
                        (VString (Header_Get (Header r) ''kubeflow-userid'')) m))"
  by (simp add: read_userid_def Let_def)

lemma read_token_Some:
  "read_token r (Some m) =
     Next (Some (if Header_Get (Header r) ''x-forwarded-access-token'' = [] then m
                 else AList.update ''x-forwarded-access-token''
                        (VString (Header_Get (Header r) ''x-forwarded-access-token'')) m))"
  by (simp add: read_token_def Let_def)

text \<open>
  Claim C7.  Whatever \<open>params\<close> held after the body or the query was read, afterwards
  the key \<open>oauth2_proxy_kubeflow\<close> holds the value of the first cookie of that name among
  the cookies of the request, or \<open>nil\<close> when there is none; each of the keys
  \<open>kubeflow-userid\<close> and \<open>x-forwarded-access-token\<close> holds the first value of its header
  (under its canonical name) when that is not empty, and keeps what the client supplied when
  the header is absent or empty; every other key is left as it was.  The witness has one
  request with the cookie and the token header and one without them, both with a body that
  supplies all three keys.
\<close>

theorem auth_values_overwrite:
  assumes "read_params r = Next (Some m)"
  shows "\<exists>m'. collect_params r = Next (Some m') \<and>
     (\<forall>k. map_of m' k =
        (if k = ''oauth2_proxy_kubeflow'' then
           (case map_of (Cookies r) ''oauth2_proxy_kubeflow'' of
              None \<Rightarrow> Some VNil
            | Some v \<Rightarrow> Some (VString v))
         else if k = ''kubeflow-userid'' then
           (case map_of (Header r) ''Kubeflow-Userid'' of
              None \<Rightarrow> map_of m k
            | Some [] \<Rightarrow> map_of m k
            | Some (v # vs) \<Rightarrow> if v = [] then map_of m k else Some (VString v))
         else if k = ''x-forwarded-access-token'' then
           (case map_of (Header r) ''X-Forwarded-Access-Token'' of
              None \<Rightarrow> map_of m k
            | Some [] \<Rightarrow> map_of m k
            | Some (v # vs) \<Rightarrow> if v = [] then map_of m k else Some (VString v))
         else map_of m k))"
  using assms
  by (simp add: collect_params_def read_cookie_Some read_userid_Some read_token_Some
      Header_Get_keys update_conv' split: option.splits list.splits)

lemma spoofing_read_params:
  "read_params spoofing_request =
     Next (Some [(''oauth2_proxy_kubeflow'', VString ''forged''),
                 (''kubeflow-userid'', VString ''mallory''),
                 (''x-forwarded-access-token'', VString ''t0''),
                 (''n'', VFloat64 ''1'')])"
  "read_params signed_in_request =
     Next (Some [(''oauth2_proxy_kubeflow'', VString ''forged''),
                 (''kubeflow-userid'', VString ''mallory''),
                 (''x-forwarded-access-token'', VString ''t0''),
                 (''n'', VFloat64 ''1'')])"
  by code_simp+

lemma spoofing_fields:
  "Cookies spoofing_request = []"
  "Header spoofing_request = [(''Kubeflow-Userid'', [''alice''])]"
  "Cookies signed_in_request =
     [(''session'', ''s1''), (''oauth2_proxy_kubeflow'', ''real''),
      (''oauth2_proxy_kubeflow'', ''later'')]"
  "Header signed_in_request = [(''X-Forwarded-Access-Token'', [''tok'', ''tok2''])]"
  by (simp_all add: spoofing_request_def signed_in_request_def)

theorem auth_values_overwrite_witness:
  "(\<exists>m'. collect_params spoofing_request = Next (Some m')
      \<and> map_of m' ''oauth2_proxy_kubeflow'' = Some VNil
      \<and> map_of m' ''kubeflow-userid'' = Some (VString ''alice'')
      \<and> map_of m' ''x-forwarded-access-token'' = Some (VString ''t0'')
      \<and> map_of m' ''n'' = Some (VFloat64 ''1''))
   \<and> (\<exists>m'. collect_params signed_in_request = Next (Some m')
      \<and> map_of m' ''oauth2_proxy_kubeflow'' = Some (VString ''real'')
      \<and> map_of m' ''kubeflow-userid'' = Some (VString ''mallory'')
      \<and> map_of m' ''x-forwarded-access-token'' = Some (VString ''tok'')
      \<and> map_of m' ''n'' = Some (VFloat64 ''1''))"
  using auth_values_overwrite[OF spoofing_read_params(1)]
    auth_values_overwrite[OF spoofing_read_params(2)]
  by (auto simp: spoofing_fields)

subsection \<open>The page\<close>



















subsection \<open>The model registry answers with a number out of range\<close>











subsection \<open>The page of an example\<close>











end
